theory Spec2Isabelle
  imports Main "HOL-Library.Word"
begin

unbundle bit_operations_syntax

section \<open>Build configuration (flashMemoryController.h)\<close>

text \<open>
  The macros of the header, with their values. The preprocessor arithmetic is on
  non-negative C \<open>int\<close> constants far below \<open>2 ^ 31\<close>, so \<open>nat\<close> with \<open>div\<close> and
  truncating \<open>-\<close> computes what the compiler computes.
\<close>

definition FCTR_TOTAL_MEMORYSIZE_BYTES :: nat where
  "FCTR_TOTAL_MEMORYSIZE_BYTES = 4194304 * 2"

definition FCTR_RESERVED_OFFSET :: nat where
  "FCTR_RESERVED_OFFSET = 1048576"

definition FCTR_SECTOR_SIZE :: nat where
  "FCTR_SECTOR_SIZE = 4096"

definition FCTR_TOTAL_SECTORS :: nat where
  "FCTR_TOTAL_SECTORS = FCTR_TOTAL_MEMORYSIZE_BYTES div FCTR_SECTOR_SIZE"

definition FCTR_AVAILABLE_SECTORS :: nat where
  "FCTR_AVAILABLE_SECTORS = FCTR_TOTAL_SECTORS - FCTR_RESERVED_OFFSET div FCTR_SECTOR_SIZE"

definition FCTR_SIZE_OF_KILOBYTE :: nat where
  "FCTR_SIZE_OF_KILOBYTE = 1024"

text \<open>\<open>RESET\<close> and \<open>SET\<close> come from the vendor headers; they are 0 and 1.\<close>

definition RESET :: nat where
  "RESET = 0"

section \<open>Data model (flashMemoryController.c, lines 66-108)\<close>

datatype fctrStat_t = FCTRSTAT_OK | FCTRSTAT_ERROR

datatype fctrSectorStat_t =
  FCTR_SECTOR_RESERVED | FCTR_SECTOR_EMPTY | FCTR_SECTOR_UNREAD | FCTR_SECTOR_READ

text \<open>The enumerators' values; every one fits the \<open>uint8_t\<close> the table stores.\<close>

fun sector_code :: "fctrSectorStat_t \<Rightarrow> 8 word" where
  "sector_code FCTR_SECTOR_RESERVED = 0xFF"
| "sector_code FCTR_SECTOR_EMPTY = 0x5F"
| "sector_code FCTR_SECTOR_UNREAD = 0x5E"
| "sector_code FCTR_SECTOR_READ = 0x5C"

definition SIGNATURE_BYTE :: "8 word" where
  "SIGNATURE_BYTE = 0x55"

section \<open>The flash device behind the W25Qxx driver\<close>

text \<open>
  The driver (\<open>w25qxx.h\<close>) is an external collaborator; the controller only calls it.
  The device is a byte-addressed store. The commands that change it are recorded in
  \<open>issued\<close>, in the order the controller issues them, so that a theorem can say how often
  the Map Sector was erased and rewritten. \<open>Init_result\<close> is what \<open>W25qxx_Init\<close>
  returns; the three geometry fields are the ones \<open>fctr_getFlashSizes\<close> reads.
\<close>

datatype w25qxx_cmd =
  Cmd_EraseSector nat
| Cmd_WriteSector "8 word list" nat nat nat
| Cmd_WriteByte "8 word" nat

record w25qxx_t =
  Init_result :: bool
  CapacityInKiloByte :: "32 word"
  SectorCount :: "32 word"
  SectorSize :: "32 word"
  cells :: "nat \<Rightarrow> 8 word"
  issued :: "w25qxx_cmd list"

text \<open>
  The primitives of the driver are not part of the repository. What follows gives each
  the behaviour the spec (sections 1, 3 and 6) and the comment at line 557 of the source
  describe: sectors are addressed by absolute index and are \<open>FCTR_SECTOR_SIZE\<close> bytes
  long, bytes by absolute address; programming only clears bits; erasing sets them.
\<close>

text \<open>Modelled from the spec: \<open>W25qxx_Init\<close>, the device bring-up, returns a boolean.\<close>

definition W25qxx_Init :: "w25qxx_t \<Rightarrow> bool" where
  "W25qxx_Init dev = Init_result dev"

text \<open>Modelled from the spec: \<open>W25qxx_ReadByte\<close> reads the byte at an absolute address.\<close>

definition W25qxx_ReadByte :: "nat \<Rightarrow> w25qxx_t \<Rightarrow> 8 word" where
  "W25qxx_ReadByte addr dev = cells dev addr"

text \<open>
  Modelled from the spec: \<open>W25qxx_WriteByte\<close> programs one byte; the cell keeps only the
  bits set both in it and in the data.
\<close>

definition W25qxx_WriteByte :: "8 word \<Rightarrow> nat \<Rightarrow> w25qxx_t \<Rightarrow> w25qxx_t" where
  "W25qxx_WriteByte b addr dev =
     dev\<lparr>cells := (cells dev)(addr := cells dev addr AND b),
         issued := issued dev @ [Cmd_WriteByte b addr]\<rparr>"

text \<open>
  Modelled from the spec: \<open>W25qxx_ReadSector\<close> delivers \<open>n\<close> bytes of a sector, from
  \<open>offset\<close> on.
\<close>

definition W25qxx_ReadSector :: "nat \<Rightarrow> nat \<Rightarrow> nat \<Rightarrow> w25qxx_t \<Rightarrow> 8 word list" where
  "W25qxx_ReadSector sector offset n dev =
     map (\<lambda>k. cells dev (sector * FCTR_SECTOR_SIZE + offset + k)) [0..<n]"

text \<open>
  Modelled from the spec: programming a run of bytes from address \<open>base\<close> on, each cell
  as \<open>W25qxx_WriteByte\<close> programs it.
\<close>

definition program_cells :: "(nat \<Rightarrow> 8 word) \<Rightarrow> nat \<Rightarrow> 8 word list \<Rightarrow> nat \<Rightarrow> 8 word" where
  "program_cells c base bs =
     (\<lambda>a. if base \<le> a \<and> a < base + length bs then c a AND bs ! (a - base) else c a)"

text \<open>
  Modelled from the spec: \<open>W25qxx_WriteSector\<close> programs the first \<open>n\<close> bytes of the
  buffer into a sector, from \<open>offset\<close> on. The callers pass buffers of at least \<open>n\<close>
  bytes; of a shorter buffer only the bytes it has are programmed.
\<close>

definition W25qxx_WriteSector ::
    "8 word list \<Rightarrow> nat \<Rightarrow> nat \<Rightarrow> nat \<Rightarrow> w25qxx_t \<Rightarrow> w25qxx_t" where
  "W25qxx_WriteSector pBuffer sector offset n dev =
     dev\<lparr>cells := program_cells (cells dev) (sector * FCTR_SECTOR_SIZE + offset) (take n pBuffer),
         issued := issued dev @ [Cmd_WriteSector pBuffer sector offset n]\<rparr>"

text \<open>Modelled from the spec: \<open>W25qxx_EraseSector\<close> sets every byte of a sector to 0xFF.\<close>

definition W25qxx_EraseSector :: "nat \<Rightarrow> w25qxx_t \<Rightarrow> w25qxx_t" where
  "W25qxx_EraseSector sector dev =
     dev\<lparr>cells := (\<lambda>a. if sector * FCTR_SECTOR_SIZE \<le> a \<and> a < Suc sector * FCTR_SECTOR_SIZE
                        then 0xFF else cells dev a),
         issued := issued dev @ [Cmd_EraseSector sector]\<rparr>"

text \<open>
  Modelled from the spec: \<open>W25qxx_IsEmptySector\<close> tells whether the \<open>n\<close> bytes of a
  sector from \<open>offset\<close> on are all in the erased state.
\<close>

definition W25qxx_IsEmptySector :: "nat \<Rightarrow> nat \<Rightarrow> nat \<Rightarrow> w25qxx_t \<Rightarrow> bool" where
  "W25qxx_IsEmptySector sector offset n dev =
     list_all (\<lambda>b. b = 0xFF) (W25qxx_ReadSector sector offset n dev)"

section \<open>Controller state\<close>

text \<open>
  The globals of the source as one state: \<open>fctrStatusBytes\<close> is the array of
  \<open>FCTR_AVAILABLE_SECTORS\<close> bytes declared at line 108, \<open>w25qxx\<close> the device. The array
  keeps its length. \<open>overrun\<close> counts the single-byte stores of
  \<open>fctr_changeSectorStatus\<close> at an index outside the array; the callers in the source
  only pass indices found inside it. The debug console (\<open>fctr_debugSpace\<close>,
  \<open>console_printf\<close>) takes no part in control flow and is left out.
\<close>

record fctr_t =
  fctrStatusBytes :: "8 word list"
  w25qxx :: w25qxx_t
  overrun :: nat

section \<open>Middleware (flashMemoryController.c, lines 398-574)\<close>

text \<open>\<open>IC_W25Qxx\<close> is defined in the header, so the \<^verbatim>\<open>#ifdef\<close> bodies are compiled in.\<close>

definition fctr_initIC :: "fctr_t \<Rightarrow> fctrStat_t" where
  "fctr_initIC st = (if W25qxx_Init (w25qxx st) then FCTRSTAT_OK else FCTRSTAT_ERROR)"

text \<open>Returns the status and the three out-parameters, in the order of the C signature.\<close>

definition fctr_getFlashSizes :: "fctr_t \<Rightarrow> fctrStat_t \<times> 32 word \<times> 32 word \<times> 32 word" where
  "fctr_getFlashSizes st =
     (let totalSpaceInKB = CapacityInKiloByte (w25qxx st);
          totalSectors = SectorCount (w25qxx st);
          sectorSize = SectorSize (w25qxx st)
      in (if unat totalSpaceInKB < FCTR_SIZE_OF_KILOBYTE then FCTRSTAT_ERROR else FCTRSTAT_OK,
          totalSpaceInKB, totalSectors, sectorSize))"

text \<open>The read functions return the status and the bytes delivered into the buffer.\<close>

definition fctr_readSectorStatus :: "fctr_t \<Rightarrow> fctrStat_t \<times> 8 word list" where
  "fctr_readSectorStatus st =
     (FCTRSTAT_OK,
      W25qxx_ReadSector (FCTR_RESERVED_OFFSET div FCTR_SECTOR_SIZE) 0 FCTR_AVAILABLE_SECTORS
        (w25qxx st))"

definition fctr_readSector :: "nat \<Rightarrow> fctr_t \<Rightarrow> fctrStat_t \<times> 8 word list" where
  "fctr_readSector requestedSector st =
     (let newSectorAddress =
            (FCTR_RESERVED_OFFSET div FCTR_SECTOR_SIZE + requestedSector) mod 2 ^ 32
      in (FCTRSTAT_OK, W25qxx_ReadSector newSectorAddress 0 FCTR_SECTOR_SIZE (w25qxx st)))"

definition fctr_writeSector :: "8 word list \<Rightarrow> nat \<Rightarrow> fctr_t \<Rightarrow> fctrStat_t \<times> fctr_t" where
  "fctr_writeSector pBuffer requestedSector st =
     (let newSectorAddress =
            (FCTR_RESERVED_OFFSET div FCTR_SECTOR_SIZE + requestedSector) mod 2 ^ 32;
          dev = w25qxx st;
          dev' = (if W25qxx_IsEmptySector newSectorAddress 0 FCTR_SECTOR_SIZE dev
                  then W25qxx_WriteSector pBuffer newSectorAddress 0 FCTR_SECTOR_SIZE dev
                  else W25qxx_WriteSector pBuffer newSectorAddress 0 FCTR_SECTOR_SIZE
                         (W25qxx_EraseSector newSectorAddress dev))
      in (FCTRSTAT_OK, st\<lparr>w25qxx := dev'\<rparr>))"

definition fctr_writeSectorStatus :: "8 word list \<Rightarrow> fctr_t \<Rightarrow> fctrStat_t \<times> fctr_t" where
  "fctr_writeSectorStatus sectorStatus st =
     (let mapSector = FCTR_RESERVED_OFFSET div FCTR_SECTOR_SIZE;
          dev' = W25qxx_WriteSector sectorStatus mapSector 0 FCTR_AVAILABLE_SECTORS
                   (W25qxx_EraseSector mapSector (w25qxx st))
      in (FCTRSTAT_OK, st\<lparr>w25qxx := dev'\<rparr>))"

definition fctr_eraseSector :: "nat \<Rightarrow> fctr_t \<Rightarrow> fctrStat_t \<times> fctr_t" where
  "fctr_eraseSector sectorToErase st =
     (FCTRSTAT_OK,
      st\<lparr>w25qxx := W25qxx_EraseSector
             ((FCTR_RESERVED_OFFSET div FCTR_SECTOR_SIZE + sectorToErase) mod 2 ^ 32)
             (w25qxx st)\<rparr>)"

text \<open>The byte is written, read back once and compared (lines 558-571).\<close>

definition fctr_writeByte :: "8 word \<Rightarrow> nat \<Rightarrow> fctr_t \<Rightarrow> fctrStat_t \<times> fctr_t" where
  "fctr_writeByte byteToWrite requestedAddress st =
     (let addr = (FCTR_RESERVED_OFFSET + requestedAddress) mod 2 ^ 32;
          dev' = W25qxx_WriteByte byteToWrite addr (w25qxx st);
          testWrittenByte = W25qxx_ReadByte addr dev'
      in (if testWrittenByte = byteToWrite then FCTRSTAT_OK else FCTRSTAT_ERROR,
          st\<lparr>w25qxx := dev'\<rparr>))"

section \<open>Status table operations (flashMemoryController.c, lines 248-389)\<close>

text \<open>
  \<open>fctr_refreshTheMemoryStatus\<close> is only ever called with \<open>fctrStatusBytes\<close> as its
  argument (line 367), so the store through \<open>memStatus\<close> is a store into the table.
\<close>

definition fctr_refreshTheMemoryStatus :: "fctr_t \<Rightarrow> fctrStat_t \<times> fctr_t" where
  "fctr_refreshTheMemoryStatus st =
     (let st1 = st\<lparr>fctrStatusBytes := (fctrStatusBytes st)[0 := SIGNATURE_BYTE]\<rparr>
      in case fctr_writeSectorStatus (fctrStatusBytes st1) st1 of
           (FCTRSTAT_OK, st2) \<Rightarrow> (FCTRSTAT_OK, st2)
         | (FCTRSTAT_ERROR, st2) \<Rightarrow> (FCTRSTAT_ERROR, st2))"

definition fctr_formatTheMemorySpace :: "fctr_t \<Rightarrow> fctrStat_t \<times> fctr_t" where
  "fctr_formatTheMemorySpace st =
     (let st1 = st\<lparr>fctrStatusBytes :=
                    replicate FCTR_AVAILABLE_SECTORS (sector_code FCTR_SECTOR_EMPTY)\<rparr>;
          st2 = st1\<lparr>fctrStatusBytes := (fctrStatusBytes st1)[0 := SIGNATURE_BYTE]\<rparr>
      in case fctr_writeSectorStatus (fctrStatusBytes st2) st2 of
           (FCTRSTAT_OK, st3) \<Rightarrow> (FCTRSTAT_OK, st3)
         | (FCTRSTAT_ERROR, st3) \<Rightarrow> (FCTRSTAT_ERROR, st3))"

text \<open>
  The store at line 303 is made whatever \<open>fctr_writeByte\<close> returned. An index outside
  the array leaves the table as it is and is counted in \<open>overrun\<close>.
\<close>

definition fctr_changeSectorStatus ::
    "fctrSectorStat_t \<Rightarrow> nat \<Rightarrow> fctr_t \<Rightarrow> fctrStat_t \<times> fctr_t" where
  "fctr_changeSectorStatus newSectorStat sectorToChangeStatusOf st =
     (let byteBuff = sector_code newSectorStat;
          (result, st1) = fctr_writeByte byteBuff sectorToChangeStatusOf st
      in (result,
          if sectorToChangeStatusOf < FCTR_AVAILABLE_SECTORS
          then st1\<lparr>fctrStatusBytes := (fctrStatusBytes st1)[sectorToChangeStatusOf := byteBuff]\<rparr>
          else st1\<lparr>overrun := overrun st1 + 1\<rparr>))"

text \<open>
  The three search loops (lines 314, 339 and 375) have one shape: from index \<open>i\<close> upwards,
  the first index below \<open>FCTR_AVAILABLE_SECTORS\<close> whose byte equals the code looked for.
  The counter is a \<open>uint32_t\<close> that stays below \<open>FCTR_AVAILABLE_SECTORS\<close>, so it does not
  wrap.
\<close>

function find_first :: "8 word \<Rightarrow> 8 word list \<Rightarrow> nat \<Rightarrow> nat option" where
  "find_first code bytes i =
     (if i < FCTR_AVAILABLE_SECTORS
      then (if bytes ! i = code then Some i else find_first code bytes (Suc i))
      else None)"
  by pat_completeness auto
termination
  by (relation "measure (\<lambda>(code, bytes, i). FCTR_AVAILABLE_SECTORS - i)") auto

text \<open>
  \<open>Some i\<close> stands for \<open>FCTRSTAT_OK\<close> with \<open>*sectorToRead = i\<close>, \<open>None\<close> for
  \<open>FCTRSTAT_ERROR\<close> with the out-parameter untouched.
\<close>

definition fctr_findSectorToRead :: "fctr_t \<Rightarrow> nat option \<times> fctr_t" where
  "fctr_findSectorToRead st =
     (find_first (sector_code FCTR_SECTOR_UNREAD) (fctrStatusBytes st) 1, st)"

text \<open>The compaction loop (lines 356-362): the table and \<open>foundASector\<close> are threaded.\<close>

function reset_read_sectors :: "8 word list \<Rightarrow> bool \<Rightarrow> nat \<Rightarrow> 8 word list \<times> bool" where
  "reset_read_sectors bytes foundASector readSector =
     (if readSector < FCTR_AVAILABLE_SECTORS
      then (if bytes ! readSector \<noteq> sector_code FCTR_SECTOR_UNREAD
            then reset_read_sectors (bytes[readSector := sector_code FCTR_SECTOR_EMPTY]) True
                   (Suc readSector)
            else reset_read_sectors bytes foundASector (Suc readSector))
      else (bytes, foundASector))"
  by pat_completeness auto
termination
  by (relation "measure (\<lambda>(bytes, foundASector, readSector). FCTR_AVAILABLE_SECTORS - readSector)")
     auto

definition fctr_findSectorToWrite :: "fctr_t \<Rightarrow> nat option \<times> fctr_t" where
  "fctr_findSectorToWrite st =
     (case find_first (sector_code FCTR_SECTOR_EMPTY) (fctrStatusBytes st) 1 of
        Some emptySector \<Rightarrow> (Some emptySector, st)
      | None \<Rightarrow>
          (let (bytes, foundASector) = reset_read_sectors (fctrStatusBytes st) False 1;
               st1 = st\<lparr>fctrStatusBytes := bytes\<rparr>
           in if foundASector
              then (case fctr_refreshTheMemoryStatus st1 of
                      (FCTRSTAT_ERROR, st2) \<Rightarrow> (None, st2)
                    | (FCTRSTAT_OK, st2) \<Rightarrow>
                        (find_first (sector_code FCTR_SECTOR_EMPTY) (fctrStatusBytes st2) RESET,
                         st2))
              else (None, st1)))"

section \<open>Public operations (flashMemoryController.c, lines 118-238)\<close>

definition fctr_pushToFlash :: "8 word list \<Rightarrow> fctr_t \<Rightarrow> fctrStat_t \<times> fctr_t" where
  "fctr_pushToFlash pBuffer st =
     (case fctr_findSectorToWrite st of
        (None, st1) \<Rightarrow> (FCTRSTAT_ERROR, st1)
      | (Some sectorToWrite, st1) \<Rightarrow>
          (case fctr_writeSector pBuffer sectorToWrite st1 of
             (FCTRSTAT_ERROR, st2) \<Rightarrow> (FCTRSTAT_ERROR, st2)
           | (FCTRSTAT_OK, st2) \<Rightarrow>
               (case fctr_changeSectorStatus FCTR_SECTOR_UNREAD sectorToWrite st2 of
                  (FCTRSTAT_ERROR, st3) \<Rightarrow> (FCTRSTAT_ERROR, st3)
                | (FCTRSTAT_OK, st3) \<Rightarrow> (FCTRSTAT_OK, st3))))"

text \<open>
  \<open>fctr_popFromFlash\<close> takes the caller's buffer and returns it as the call leaves it.
\<close>

definition fctr_popFromFlash ::
    "8 word list \<Rightarrow> fctr_t \<Rightarrow> fctrStat_t \<times> 8 word list \<times> fctr_t" where
  "fctr_popFromFlash pBuffer st =
     (case fctr_findSectorToRead st of
        (None, st1) \<Rightarrow> (FCTRSTAT_ERROR, pBuffer, st1)
      | (Some sectorToRead, st1) \<Rightarrow>
          (case fctr_readSector sectorToRead st1 of
             (FCTRSTAT_ERROR, pBuffer') \<Rightarrow> (FCTRSTAT_ERROR, pBuffer', st1)
           | (FCTRSTAT_OK, pBuffer') \<Rightarrow>
               (case fctr_changeSectorStatus FCTR_SECTOR_READ sectorToRead st1 of
                  (FCTRSTAT_ERROR, st2) \<Rightarrow> (FCTRSTAT_ERROR, pBuffer', st2)
                | (FCTRSTAT_OK, st2) \<Rightarrow> (FCTRSTAT_OK, pBuffer', st2))))"

text \<open>
  A buffer delivered into \<open>fctrStatusBytes\<close> from its first byte on. A buffer that fits
  overwrites as many bytes as it has and leaves the rest of the array. A buffer longer than
  the \<open>FCTR_AVAILABLE_SECTORS\<close> bytes of the array is stored past its end, over whatever
  lies behind it in memory; C gives the program no meaning from there on, so there is no
  resulting state: \<open>None\<close>.
\<close>

definition load_status_bytes :: "8 word list \<Rightarrow> fctr_t \<Rightarrow> fctr_t option" where
  "load_status_bytes buf st =
     (if length buf \<le> FCTR_AVAILABLE_SECTORS
      then Some (st\<lparr>fctrStatusBytes := buf @ drop (length buf) (fctrStatusBytes st)\<rparr>)
      else None)"

text \<open>
  \<open>fctr_firstInit\<close>: \<open>None\<close> when the call runs into a store past the end of the table,
  otherwise the status and the state. The result of \<open>fctr_formatTheMemorySpace\<close> is
  dropped (line 226). The first load (line 214) goes through \<open>fctr_readSectorStatus\<close>,
  which asks for \<open>FCTR_AVAILABLE_SECTORS\<close> bytes; the re-read after formatting (line 227)
  goes through \<open>fctr_readSector\<close>, which asks for \<open>FCTR_SECTOR_SIZE\<close> bytes of sector 0.
\<close>

definition fctr_firstInit :: "fctr_t \<Rightarrow> (fctrStat_t \<times> fctr_t) option" where
  "fctr_firstInit st =
     (if fctr_initIC st \<noteq> FCTRSTAT_OK then Some (FCTRSTAT_ERROR, st)
      else case fctr_getFlashSizes st of
        (FCTRSTAT_ERROR, totalSizeKB, sectorCount, sectorSize) \<Rightarrow> Some (FCTRSTAT_ERROR, st)
      | (FCTRSTAT_OK, totalSizeKB, sectorCount, sectorSize) \<Rightarrow>
          (case fctr_readSectorStatus st of
             (r, buf) \<Rightarrow>
               (case load_status_bytes buf st of
                  None \<Rightarrow> None
                | Some st1 \<Rightarrow>
                    if r \<noteq> FCTRSTAT_OK then Some (FCTRSTAT_ERROR, st1)
                    else if fctrStatusBytes st1 ! 0 \<noteq> SIGNATURE_BYTE
                    then (let st2 = snd (fctr_formatTheMemorySpace st1)
                          in case fctr_readSector 0 st2 of
                               (r2, buf2) \<Rightarrow>
                                 (case load_status_bytes buf2 st2 of
                                    None \<Rightarrow> None
                                  | Some st3 \<Rightarrow>
                                      if r2 \<noteq> FCTRSTAT_OK then Some (FCTRSTAT_ERROR, st3)
                                      else Some (FCTRSTAT_OK, st3)))
                    else Some (FCTRSTAT_OK, st1))))"

section \<open>Runs and reference states\<close>

text \<open>Consecutive calls of \<open>fctr_pushToFlash\<close>, one per payload, with the status of each.\<close>

fun push_all :: "8 word list list \<Rightarrow> fctr_t \<Rightarrow> fctrStat_t list \<times> fctr_t" where
  "push_all [] st = ([], st)"
| "push_all (p # ps) st =
     (case fctr_pushToFlash p st of
        (r, st1) \<Rightarrow> (case push_all ps st1 of (rs, st2) \<Rightarrow> (r # rs, st2)))"

text \<open>
  The one device operation whose failure the controller can see is the verified byte
  write: \<open>status_write_succeeds s i st\<close> says that writing code \<open>s\<close> to status slot \<open>i\<close>
  in state \<open>st\<close> reads back as written.
\<close>

definition status_write_succeeds :: "fctrSectorStat_t \<Rightarrow> nat \<Rightarrow> fctr_t \<Rightarrow> bool" where
  "status_write_succeeds s i st \<longleftrightarrow> fst (fctr_writeByte (sector_code s) i st) = FCTRSTAT_OK"

text \<open>
  States to evaluate the theorems at: a status table with the signature, one code for
  sector 1 and one code for all later sectors; a chip whose Map Sector holds a given table
  and is erased elsewhere; the controller state over that chip with the table loaded.
\<close>

definition table_of :: "fctrSectorStat_t \<Rightarrow> fctrSectorStat_t \<Rightarrow> 8 word list" where
  "table_of first others =
     SIGNATURE_BYTE # sector_code first #
       replicate (FCTR_AVAILABLE_SECTORS - 2) (sector_code others)"

definition chip_with_table :: "8 word list \<Rightarrow> w25qxx_t" where
  "chip_with_table tbl =
     \<lparr>Init_result = True, CapacityInKiloByte = 8192, SectorCount = 2048, SectorSize = 4096,
      cells = (\<lambda>a. if FCTR_RESERVED_OFFSET \<le> a \<and> a < FCTR_RESERVED_OFFSET + length tbl
                    then tbl ! (a - FCTR_RESERVED_OFFSET) else 0xFF),
      issued = []\<rparr>"

definition state_with_table :: "8 word list \<Rightarrow> fctr_t" where
  "state_with_table tbl = \<lparr>fctrStatusBytes = tbl, w25qxx = chip_with_table tbl, overrun = 0\<rparr>"

text \<open>
  The table \<open>fctr_formatTheMemorySpace\<close> builds, and the progress of a run of pushes into
  it: sectors \<open>1..k\<close> hold undelivered payloads, the later ones are EMPTY and their status
  slots take the UNREAD mark.
\<close>

definition formatted_table :: "8 word list" where
  "formatted_table = (replicate FCTR_AVAILABLE_SECTORS (sector_code FCTR_SECTOR_EMPTY))
                       [0 := SIGNATURE_BYTE]"

definition filled_upto :: "nat \<Rightarrow> fctr_t \<Rightarrow> bool" where
  "filled_upto k st \<longleftrightarrow>
     length (fctrStatusBytes st) = FCTR_AVAILABLE_SECTORS \<and>
     (\<forall>i. 1 \<le> i \<and> i \<le> k \<longrightarrow> fctrStatusBytes st ! i = sector_code FCTR_SECTOR_UNREAD) \<and>
     (\<forall>i. k < i \<and> i < FCTR_AVAILABLE_SECTORS \<longrightarrow>
          fctrStatusBytes st ! i = sector_code FCTR_SECTOR_EMPTY \<and>
          status_write_succeeds FCTR_SECTOR_UNREAD i st)"

text \<open>
  Two controllers at power-on (the table is zero-initialised, line 108): one over a chip
  that is erased throughout, as it leaves the factory, with the geometry the header is
  compiled for; one over a chip whose Map Sector is formatted and which reports a geometry
  different from the compiled one.
\<close>

definition erased_chip_state :: fctr_t where
  "erased_chip_state =
     \<lparr>fctrStatusBytes = replicate FCTR_AVAILABLE_SECTORS 0,
      w25qxx = chip_with_table [],
      overrun = 0\<rparr>"

definition mismatched_state :: fctr_t where
  "mismatched_state =
     \<lparr>fctrStatusBytes = replicate FCTR_AVAILABLE_SECTORS 0,
      w25qxx = (chip_with_table (table_of FCTR_SECTOR_EMPTY FCTR_SECTOR_EMPTY))
                 \<lparr>CapacityInKiloByte := 16384, SectorCount := 32768, SectorSize := 512\<rparr>,
      overrun = 0\<rparr>"

section \<open>Constants and the reference states\<close>

lemma N_val: "FCTR_AVAILABLE_SECTORS = 1792"
  by (simp add: FCTR_AVAILABLE_SECTORS_def FCTR_TOTAL_SECTORS_def FCTR_TOTAL_MEMORYSIZE_BYTES_def
      FCTR_SECTOR_SIZE_def FCTR_RESERVED_OFFSET_def)

lemma map_sector_val: "FCTR_RESERVED_OFFSET div FCTR_SECTOR_SIZE = 256"
  by (simp add: FCTR_SECTOR_SIZE_def FCTR_RESERVED_OFFSET_def)

lemma table_of_length: "length (table_of a b) = FCTR_AVAILABLE_SECTORS"
  by (simp add: table_of_def N_val)

lemma table_of_nth:
  "i < FCTR_AVAILABLE_SECTORS \<Longrightarrow>
   table_of a b ! i =
     (if i = 0 then SIGNATURE_BYTE else if i = 1 then sector_code a else sector_code b)"
  by (auto simp: table_of_def N_val nth_Cons')

lemma state_with_table_bytes [simp]: "fctrStatusBytes (state_with_table tbl) = tbl"
  by (simp add: state_with_table_def)

section \<open>The search loops\<close>

declare find_first.simps [simp del]
declare reset_read_sectors.simps [simp del]

lemma find_first_Some_iff:
  "find_first c bs i = Some j \<longleftrightarrow>
     i \<le> j \<and> j < FCTR_AVAILABLE_SECTORS \<and> bs ! j = c \<and> (\<forall>k. i \<le> k \<and> k < j \<longrightarrow> bs ! k \<noteq> c)"
proof (induction c bs i rule: find_first.induct)
  case (1 code bytes i)
  show ?case
  proof (cases "i < FCTR_AVAILABLE_SECTORS")
    case False
    then show ?thesis by (simp add: find_first.simps [of code bytes i])
  next
    case inside: True
    show ?thesis
    proof (cases "bytes ! i = code")
      case True
      have "j = i" if "i \<le> j" "\<forall>k. i \<le> k \<and> k < j \<longrightarrow> bytes ! k \<noteq> code"
        using that True by (metis le_neq_implies_less order_refl)
      with True inside show ?thesis
        by (auto simp: find_first.simps [of code bytes i])
    next
      case False
      have "find_first code bytes i = find_first code bytes (Suc i)"
        using inside False by (simp add: find_first.simps [of code bytes i])
      moreover have "(i \<le> j \<and> bytes ! j = code) = (Suc i \<le> j \<and> bytes ! j = code)"
        using False by (auto simp: Suc_le_eq le_less)
      moreover have "(\<forall>k. i \<le> k \<and> k < j \<longrightarrow> bytes ! k \<noteq> code) =
                     (\<forall>k. Suc i \<le> k \<and> k < j \<longrightarrow> bytes ! k \<noteq> code)"
        using False by (metis Suc_leI le_neq_implies_less Suc_leD)
      ultimately show ?thesis
        using "1.IH" [OF inside False] by auto
    qed
  qed
qed

lemma find_first_None_iff:
  "find_first c bs i = None \<longleftrightarrow> (\<forall>k. i \<le> k \<and> k < FCTR_AVAILABLE_SECTORS \<longrightarrow> bs ! k \<noteq> c)"
proof (induction c bs i rule: find_first.induct)
  case (1 code bytes i)
  show ?case
  proof (cases "i < FCTR_AVAILABLE_SECTORS")
    case False
    then show ?thesis by (auto simp: find_first.simps [of code bytes i])
  next
    case inside: True
    show ?thesis
    proof (cases "bytes ! i = code")
      case True
      with inside show ?thesis
        by (auto simp: find_first.simps [of code bytes i])
    next
      case False
      have "find_first code bytes i = find_first code bytes (Suc i)"
        using inside False by (simp add: find_first.simps [of code bytes i])
      moreover have "(\<forall>k. i \<le> k \<and> k < FCTR_AVAILABLE_SECTORS \<longrightarrow> bytes ! k \<noteq> code) =
                     (\<forall>k. Suc i \<le> k \<and> k < FCTR_AVAILABLE_SECTORS \<longrightarrow> bytes ! k \<noteq> code)"
        using False by (metis Suc_leI le_neq_implies_less Suc_leD)
      ultimately show ?thesis
        using "1.IH" [OF inside False] by simp
    qed
  qed
qed

lemma reset_read_sectors_length:
  "length (fst (reset_read_sectors bs f i)) = length bs"
proof (induction bs f i rule: reset_read_sectors.induct)
  case (1 bytes foundASector readSector)
  then show ?case
    by (simp add: reset_read_sectors.simps [of bytes foundASector readSector])
qed

lemma reset_read_sectors_nth:
  "k < length bs \<Longrightarrow>
   fst (reset_read_sectors bs f i) ! k =
     (if i \<le> k \<and> k < FCTR_AVAILABLE_SECTORS \<and> bs ! k \<noteq> sector_code FCTR_SECTOR_UNREAD
      then sector_code FCTR_SECTOR_EMPTY else bs ! k)"
proof (induction bs f i rule: reset_read_sectors.induct)
  case (1 bytes foundASector readSector)
  show ?case
  proof (cases "readSector < FCTR_AVAILABLE_SECTORS")
    case False
    then show ?thesis
      by (auto simp: reset_read_sectors.simps [of bytes foundASector readSector])
  next
    case inside: True
    show ?thesis
    proof (cases "bytes ! readSector \<noteq> sector_code FCTR_SECTOR_UNREAD")
      case True
      have "k < length (bytes[readSector := sector_code FCTR_SECTOR_EMPTY])"
        using "1.prems" by simp
      note ih = "1.IH"(1) [OF inside True this]
      have unfold: "reset_read_sectors bytes foundASector readSector =
          reset_read_sectors (bytes[readSector := sector_code FCTR_SECTOR_EMPTY]) True (Suc readSector)"
        using inside True by (simp add: reset_read_sectors.simps [of bytes foundASector readSector])
      show ?thesis
      proof (cases "k = readSector")
        case True
        with ih inside \<open>bytes ! readSector \<noteq> sector_code FCTR_SECTOR_UNREAD\<close> "1.prems"
        show ?thesis by (simp add: unfold)
      next
        case False
        then have "(Suc readSector \<le> k) = (readSector \<le> k)" by arith
        with ih False "1.prems" show ?thesis by (simp add: unfold)
      qed
    next
      case False
      from "1.IH"(2) [OF inside False "1.prems"] inside False show ?thesis
        by (auto simp: reset_read_sectors.simps [of bytes foundASector readSector]
              Suc_le_eq le_less)
    qed
  qed
qed

lemma reset_read_sectors_found:
  "snd (reset_read_sectors bs f i) =
     (f \<or> (\<exists>k. i \<le> k \<and> k < FCTR_AVAILABLE_SECTORS \<and> bs ! k \<noteq> sector_code FCTR_SECTOR_UNREAD))"
proof (induction bs f i rule: reset_read_sectors.induct)
  case (1 bytes foundASector readSector)
  show ?case
  proof (cases "readSector < FCTR_AVAILABLE_SECTORS")
    case False
    then show ?thesis
      by (auto simp: reset_read_sectors.simps [of bytes foundASector readSector])
  next
    case inside: True
    show ?thesis
    proof (cases "bytes ! readSector \<noteq> sector_code FCTR_SECTOR_UNREAD")
      case True
      from "1.IH"(1) [OF inside True] inside True show ?thesis
        by (auto simp: reset_read_sectors.simps [of bytes foundASector readSector])
    next
      case False
      have "(\<exists>k. readSector \<le> k \<and> k < FCTR_AVAILABLE_SECTORS \<and> bytes ! k \<noteq> sector_code FCTR_SECTOR_UNREAD) =
            (\<exists>k. Suc readSector \<le> k \<and> k < FCTR_AVAILABLE_SECTORS \<and> bytes ! k \<noteq> sector_code FCTR_SECTOR_UNREAD)"
        using False by (metis Suc_leI le_neq_implies_less Suc_leD)
      with "1.IH"(2) [OF inside False] inside False show ?thesis
        by (simp add: reset_read_sectors.simps [of bytes foundASector readSector])
    qed
  qed
qed


lemma find_first_eq:
  "find_first c bs i =
     (if \<exists>k. i \<le> k \<and> k < FCTR_AVAILABLE_SECTORS \<and> bs ! k = c
      then Some (LEAST k. i \<le> k \<and> k < FCTR_AVAILABLE_SECTORS \<and> bs ! k = c)
      else None)"
proof (cases "find_first c bs i")
  case None
  then show ?thesis by (auto simp: find_first_None_iff)
next
  case (Some j)
  then have j: "i \<le> j" "j < FCTR_AVAILABLE_SECTORS" "bs ! j = c"
    and least: "\<And>k. i \<le> k \<Longrightarrow> k < j \<Longrightarrow> bs ! k \<noteq> c"
    by (simp_all add: find_first_Some_iff)
  have "(LEAST k. i \<le> k \<and> k < FCTR_AVAILABLE_SECTORS \<and> bs ! k = c) = j"
  proof (rule Least_equality)
    show "i \<le> j \<and> j < FCTR_AVAILABLE_SECTORS \<and> bs ! j = c" using j by simp
  next
    fix y assume "i \<le> y \<and> y < FCTR_AVAILABLE_SECTORS \<and> bs ! y = c"
    with least [of y] show "j \<le> y" by (meson not_le)
  qed
  with Some j show ?thesis by auto
qed

lemma fctr_writeSectorStatus_eq:
  "fctr_writeSectorStatus tbl st =
     (FCTRSTAT_OK,
      st\<lparr>w25qxx := W25qxx_WriteSector tbl (FCTR_RESERVED_OFFSET div FCTR_SECTOR_SIZE) 0
                      FCTR_AVAILABLE_SECTORS
                      (W25qxx_EraseSector (FCTR_RESERVED_OFFSET div FCTR_SECTOR_SIZE) (w25qxx st))\<rparr>)"
  by (simp add: fctr_writeSectorStatus_def Let_def)

lemma fctr_refreshTheMemoryStatus_eq:
  "fctr_refreshTheMemoryStatus st =
     (FCTRSTAT_OK,
      st\<lparr>fctrStatusBytes := (fctrStatusBytes st)[0 := SIGNATURE_BYTE],
         w25qxx := W25qxx_WriteSector ((fctrStatusBytes st)[0 := SIGNATURE_BYTE])
                     (FCTR_RESERVED_OFFSET div FCTR_SECTOR_SIZE) 0 FCTR_AVAILABLE_SECTORS
                     (W25qxx_EraseSector (FCTR_RESERVED_OFFSET div FCTR_SECTOR_SIZE) (w25qxx st))\<rparr>)"
  by (simp add: fctr_refreshTheMemoryStatus_def fctr_writeSectorStatus_eq Let_def)

text \<open>What \<open>fctr_findSectorToWrite\<close> does once the first scan has found nothing.\<close>

lemma findSectorToWrite_no_empty:
  assumes "find_first (sector_code FCTR_SECTOR_EMPTY) (fctrStatusBytes st) 1 = None"
  shows "fctr_findSectorToWrite st =
     (let bytes = fst (reset_read_sectors (fctrStatusBytes st) False 1)
      in if snd (reset_read_sectors (fctrStatusBytes st) False 1)
         then (find_first (sector_code FCTR_SECTOR_EMPTY) (bytes[0 := SIGNATURE_BYTE]) 0,
               st\<lparr>fctrStatusBytes := bytes[0 := SIGNATURE_BYTE],
                  w25qxx := W25qxx_WriteSector (bytes[0 := SIGNATURE_BYTE])
                     (FCTR_RESERVED_OFFSET div FCTR_SECTOR_SIZE) 0 FCTR_AVAILABLE_SECTORS
                     (W25qxx_EraseSector (FCTR_RESERVED_OFFSET div FCTR_SECTOR_SIZE) (w25qxx st))\<rparr>)
         else (None, st\<lparr>fctrStatusBytes := bytes\<rparr>))"
  using assms
  by (simp add: fctr_findSectorToWrite_def fctr_refreshTheMemoryStatus_eq RESET_def Let_def
      split: prod.splits)

lemma reset_read_sectors_unchanged:
  assumes "\<forall>k. i \<le> k \<and> k < FCTR_AVAILABLE_SECTORS \<longrightarrow> bs ! k = sector_code FCTR_SECTOR_UNREAD"
  shows "fst (reset_read_sectors bs f i) = bs"
proof (rule nth_equalityI)
  show "length (fst (reset_read_sectors bs f i)) = length bs"
    by (rule reset_read_sectors_length)
next
  fix k assume "k < length (fst (reset_read_sectors bs f i))"
  then have "k < length bs" by (simp add: reset_read_sectors_length)
  with assms show "fst (reset_read_sectors bs f i) ! k = bs ! k"
    by (simp add: reset_read_sectors_nth)
qed

section \<open>The device\<close>

lemma erased_and [simp]: "(0xFF :: 8 word) AND x = x"
proof -
  have "(0xFF :: 8 word) = - 1" by simp
  then show ?thesis by (simp only: and.left_neutral)
qed

lemma ReadSector_length [simp]: "length (W25qxx_ReadSector s off n dev) = n"
  by (simp add: W25qxx_ReadSector_def)

lemma ReadSector_nth [simp]:
  "k < n \<Longrightarrow> W25qxx_ReadSector s off n dev ! k = cells dev (s * FCTR_SECTOR_SIZE + off + k)"
  by (simp add: W25qxx_ReadSector_def)

lemma erase_write_cells:
  assumes "length tbl = n" and "n \<le> FCTR_SECTOR_SIZE"
  shows "cells (W25qxx_WriteSector tbl s 0 n (W25qxx_EraseSector s dev)) a =
     (if s * FCTR_SECTOR_SIZE \<le> a \<and> a < s * FCTR_SECTOR_SIZE + n then tbl ! (a - s * FCTR_SECTOR_SIZE)
      else if s * FCTR_SECTOR_SIZE \<le> a \<and> a < Suc s * FCTR_SECTOR_SIZE then 0xFF
      else cells dev a)"
  using assms
  by (auto simp: W25qxx_WriteSector_def W25qxx_EraseSector_def program_cells_def)

lemma erase_write_read:
  assumes "length tbl = n" and "n \<le> FCTR_SECTOR_SIZE"
  shows "W25qxx_ReadSector s 0 n (W25qxx_WriteSector tbl s 0 n (W25qxx_EraseSector s dev)) = tbl"
  using assms by (intro nth_equalityI) (simp_all add: erase_write_cells)

lemma erase_write_issued:
  "issued (W25qxx_WriteSector tbl s 0 n (W25qxx_EraseSector s dev)) =
     issued dev @ [Cmd_EraseSector s, Cmd_WriteSector tbl s 0 n]"
  by (simp add: W25qxx_WriteSector_def W25qxx_EraseSector_def)

lemma N_le_sector: "FCTR_AVAILABLE_SECTORS \<le> FCTR_SECTOR_SIZE"
  by (simp add: N_val FCTR_SECTOR_SIZE_def)

lemma data_sector_address:
  "i < FCTR_AVAILABLE_SECTORS \<Longrightarrow>
   (FCTR_RESERVED_OFFSET div FCTR_SECTOR_SIZE + i) mod 2 ^ 32 = 256 + i"
  by (simp add: N_val map_sector_val)

lemma write_empty_read:
  assumes "W25qxx_IsEmptySector s 0 n dev" and "length X = n"
  shows "W25qxx_ReadSector s 0 n (W25qxx_WriteSector X s 0 n dev) = X"
proof (rule nth_equalityI)
  show "length (W25qxx_ReadSector s 0 n (W25qxx_WriteSector X s 0 n dev)) = length X"
    using assms by simp
next
  fix k assume "k < length (W25qxx_ReadSector s 0 n (W25qxx_WriteSector X s 0 n dev))"
  then have k: "k < n" by simp
  with assms(1) have "cells dev (s * FCTR_SECTOR_SIZE + k) = 0xFF"
    by (simp add: W25qxx_IsEmptySector_def list_all_length)
  with k assms(2) show "W25qxx_ReadSector s 0 n (W25qxx_WriteSector X s 0 n dev) ! k = X ! k"
    by (simp add: W25qxx_WriteSector_def program_cells_def)
qed

lemma write_cells_outside:
  "a < s * FCTR_SECTOR_SIZE \<or> s * FCTR_SECTOR_SIZE + n \<le> a \<Longrightarrow>
   cells (W25qxx_WriteSector X s 0 n dev) a = cells dev a"
  by (auto simp: W25qxx_WriteSector_def program_cells_def)

lemma erase_cells_outside:
  "a < s * FCTR_SECTOR_SIZE \<or> Suc s * FCTR_SECTOR_SIZE \<le> a \<Longrightarrow>
   cells (W25qxx_EraseSector s dev) a = cells dev a"
  by (auto simp: W25qxx_EraseSector_def)

lemma WriteByte_cells:
  "cells (W25qxx_WriteByte b addr dev) a = (if a = addr then cells dev addr AND b else cells dev a)"
  by (simp add: W25qxx_WriteByte_def)

lemma chip_with_table_cells:
  "i < length tbl \<Longrightarrow> cells (w25qxx (state_with_table tbl)) (FCTR_RESERVED_OFFSET + i) = tbl ! i"
  by (simp add: state_with_table_def chip_with_table_def)

section \<open>Middleware and status transitions\<close>

lemma status_address: "i < FCTR_AVAILABLE_SECTORS \<Longrightarrow>
    (FCTR_RESERVED_OFFSET + i) mod 2 ^ 32 = FCTR_RESERVED_OFFSET + i"
  by (simp add: N_val FCTR_RESERVED_OFFSET_def)

lemma fctr_writeByte_eq:
  "i < FCTR_AVAILABLE_SECTORS \<Longrightarrow>
   fctr_writeByte b i st =
     (if cells (w25qxx st) (FCTR_RESERVED_OFFSET + i) AND b = b then FCTRSTAT_OK else FCTRSTAT_ERROR,
      st\<lparr>w25qxx := W25qxx_WriteByte b (FCTR_RESERVED_OFFSET + i) (w25qxx st)\<rparr>)"
  unfolding fctr_writeByte_def
  by (simp only: status_address) (simp add: Let_def W25qxx_ReadByte_def W25qxx_WriteByte_def)

lemma fctr_changeSectorStatus_eq:
  "i < FCTR_AVAILABLE_SECTORS \<Longrightarrow>
   fctr_changeSectorStatus s i st =
     (if cells (w25qxx st) (FCTR_RESERVED_OFFSET + i) AND sector_code s = sector_code s
      then FCTRSTAT_OK else FCTRSTAT_ERROR,
      st\<lparr>w25qxx := W25qxx_WriteByte (sector_code s) (FCTR_RESERVED_OFFSET + i) (w25qxx st),
         fctrStatusBytes := (fctrStatusBytes st)[i := sector_code s]\<rparr>)"
  by (simp add: fctr_changeSectorStatus_def fctr_writeByte_eq Let_def)

text \<open>What \<open>fctr_writeSector\<close> leaves behind, for a data sector of the table.\<close>

lemma fctr_writeSector_fst [simp]: "fst (fctr_writeSector X i st) = FCTRSTAT_OK"
  by (simp add: fctr_writeSector_def Let_def)

lemma fctr_writeSector_frame:
  "snd (fctr_writeSector X i st) = st\<lparr>w25qxx := w25qxx (snd (fctr_writeSector X i st))\<rparr>"
  by (simp add: fctr_writeSector_def Let_def)

lemma fctr_writeSector_bytes [simp]:
  "fctrStatusBytes (snd (fctr_writeSector X i st)) = fctrStatusBytes st"
  by (simp add: fctr_writeSector_def Let_def)

lemma fctr_writeSector_map_cells:
  assumes "1 \<le> i" and "i < FCTR_AVAILABLE_SECTORS" and "a < FCTR_RESERVED_OFFSET + FCTR_SECTOR_SIZE"
  shows "cells (w25qxx (snd (fctr_writeSector X i st))) a = cells (w25qxx st) a"
proof -
  have "a < (256 + i) * FCTR_SECTOR_SIZE"
    using assms by (simp add: FCTR_SECTOR_SIZE_def FCTR_RESERVED_OFFSET_def)
  then show ?thesis
    unfolding fctr_writeSector_def
    by (simp only: data_sector_address [OF assms(2)])
       (simp add: Let_def write_cells_outside erase_cells_outside)
qed

lemma fctr_writeSector_read:
  assumes "i < FCTR_AVAILABLE_SECTORS" and "length X = FCTR_SECTOR_SIZE"
  shows "W25qxx_ReadSector (256 + i) 0 FCTR_SECTOR_SIZE (w25qxx (snd (fctr_writeSector X i st))) = X"
  unfolding fctr_writeSector_def
  by (simp only: data_sector_address [OF assms(1)])
     (simp add: Let_def write_empty_read erase_write_read assms(2))

lemma status_write_succeeds_iff:
  "i < FCTR_AVAILABLE_SECTORS \<Longrightarrow>
   status_write_succeeds s i st \<longleftrightarrow>
     cells (w25qxx st) (FCTR_RESERVED_OFFSET + i) AND sector_code s = sector_code s"
  by (simp add: status_write_succeeds_def fctr_writeByte_eq)

lemma fctr_formatTheMemorySpace_eq:
  "fctr_formatTheMemorySpace st =
     (FCTRSTAT_OK,
      st\<lparr>fctrStatusBytes := formatted_table,
         w25qxx := W25qxx_WriteSector formatted_table (FCTR_RESERVED_OFFSET div FCTR_SECTOR_SIZE) 0
                     FCTR_AVAILABLE_SECTORS
                     (W25qxx_EraseSector (FCTR_RESERVED_OFFSET div FCTR_SECTOR_SIZE) (w25qxx st))\<rparr>)"
  by (simp add: fctr_formatTheMemorySpace_def fctr_writeSectorStatus_eq Let_def formatted_table_def)

lemma formatted_table_length [simp]: "length formatted_table = FCTR_AVAILABLE_SECTORS"
  by (simp add: formatted_table_def)

section \<open>The Reader and the Allocator\<close>

text \<open>
  C5. \<open>fctr_findSectorToRead\<close> returns the smallest index in \<open>1..N-1\<close> whose entry is
  UNREAD when there is one and fails when there is none; either way the whole state
  (status table, device, commands issued) is the one it was called in, so no compaction
  takes place.
\<close>

theorem findSectorToRead_first_unread:
  "fctr_findSectorToRead st =
     (if \<exists>i. 1 \<le> i \<and> i < FCTR_AVAILABLE_SECTORS \<and>
             fctrStatusBytes st ! i = sector_code FCTR_SECTOR_UNREAD
      then Some (LEAST i. 1 \<le> i \<and> i < FCTR_AVAILABLE_SECTORS \<and>
                   fctrStatusBytes st ! i = sector_code FCTR_SECTOR_UNREAD)
      else None,
      st)"
  unfolding fctr_findSectorToRead_def by (subst find_first_eq) simp

theorem findSectorToRead_first_unread_witness:
  "fctr_findSectorToRead (state_with_table (table_of FCTR_SECTOR_READ FCTR_SECTOR_UNREAD)) =
     (Some 2, state_with_table (table_of FCTR_SECTOR_READ FCTR_SECTOR_UNREAD))
   \<and> fctr_findSectorToRead (state_with_table (table_of FCTR_SECTOR_READ FCTR_SECTOR_EMPTY)) =
     (None, state_with_table (table_of FCTR_SECTOR_READ FCTR_SECTOR_EMPTY))"
proof -
  let ?t = "table_of FCTR_SECTOR_READ FCTR_SECTOR_UNREAD"
  let ?P = "\<lambda>i. 1 \<le> i \<and> i < FCTR_AVAILABLE_SECTORS \<and> ?t ! i = sector_code FCTR_SECTOR_UNREAD"
  have P2: "?P 2" by (simp add: table_of_nth N_val)
  have "(LEAST i. ?P i) = 2"
  proof (rule Least_equality)
    show "?P 2" by (rule P2)
  next
    fix y assume "?P y"
    then show "2 \<le> y" by (cases "y = 1") (auto simp: table_of_nth)
  qed
  moreover have "\<exists>i. ?P i" using P2 by blast
  ultimately have a: "fctr_findSectorToRead (state_with_table ?t) = (Some 2, state_with_table ?t)"
    using findSectorToRead_first_unread [of "state_with_table ?t"] by simp
  let ?u = "table_of FCTR_SECTOR_READ FCTR_SECTOR_EMPTY"
  have "\<not> (\<exists>i. 1 \<le> i \<and> i < FCTR_AVAILABLE_SECTORS \<and> ?u ! i = sector_code FCTR_SECTOR_UNREAD)"
    by (auto simp: table_of_nth)
  then have b: "fctr_findSectorToRead (state_with_table ?u) = (None, state_with_table ?u)"
    using findSectorToRead_first_unread [of "state_with_table ?u"] by simp
  from a b show ?thesis by simp
qed

text \<open>
  C4. If some entry at an index in \<open>1..N-1\<close> is EMPTY, \<open>fctr_findSectorToWrite\<close> succeeds
  with the smallest such index and returns the state unchanged: the table is not compacted
  and nothing is sent to the device.
\<close>

theorem findSectorToWrite_first_empty:
  assumes "1 \<le> i" and "i < FCTR_AVAILABLE_SECTORS"
    and "fctrStatusBytes st ! i = sector_code FCTR_SECTOR_EMPTY"
  shows "fctr_findSectorToWrite st =
     (Some (LEAST j. 1 \<le> j \<and> j < FCTR_AVAILABLE_SECTORS \<and>
                 fctrStatusBytes st ! j = sector_code FCTR_SECTOR_EMPTY), st)"
proof -
  have "\<exists>k. 1 \<le> k \<and> k < FCTR_AVAILABLE_SECTORS \<and>
          fctrStatusBytes st ! k = sector_code FCTR_SECTOR_EMPTY"
    using assms by blast
  then show ?thesis
    unfolding fctr_findSectorToWrite_def by (subst find_first_eq) simp
qed

theorem findSectorToWrite_first_empty_witness:
  "fctr_findSectorToWrite (state_with_table (table_of FCTR_SECTOR_UNREAD FCTR_SECTOR_EMPTY)) =
     (Some 2, state_with_table (table_of FCTR_SECTOR_UNREAD FCTR_SECTOR_EMPTY))"
proof -
  let ?t = "table_of FCTR_SECTOR_UNREAD FCTR_SECTOR_EMPTY"
  let ?P = "\<lambda>i. 1 \<le> i \<and> i < FCTR_AVAILABLE_SECTORS \<and> ?t ! i = sector_code FCTR_SECTOR_EMPTY"
  have P5: "?P 5" by (simp add: table_of_nth N_val)
  have "(LEAST i. ?P i) = 2"
  proof (rule Least_equality)
    show "?P 2" by (simp add: table_of_nth N_val)
  next
    fix y assume "?P y"
    then show "2 \<le> y" by (cases "y = 1") (auto simp: table_of_nth)
  qed
  with findSectorToWrite_first_empty [of 5 "state_with_table ?t"] P5
  show ?thesis by simp
qed

text \<open>
  C2. \<open>fctr_findSectorToWrite\<close> fails exactly when every entry at the indices \<open>1..N-1\<close> is
  UNREAD. The persist of the table cannot fail in this build (\<open>fctr_writeSectorStatus\<close>
  returns \<open>FCTRSTAT_OK\<close> on every path, see \<open>fctr_writeSectorStatus_eq\<close>), so the claim's
  assumption holds in every state and is no hypothesis here.
\<close>

theorem findSectorToWrite_fails_iff_all_unread:
  assumes len: "length (fctrStatusBytes st) = FCTR_AVAILABLE_SECTORS"
  shows "(fst (fctr_findSectorToWrite st) = None) =
         (\<forall>i. 1 \<le> i \<and> i < FCTR_AVAILABLE_SECTORS \<longrightarrow>
              fctrStatusBytes st ! i = sector_code FCTR_SECTOR_UNREAD)"
proof (cases "find_first (sector_code FCTR_SECTOR_EMPTY) (fctrStatusBytes st) 1")
  case (Some j)
  then have "1 \<le> j" "j < FCTR_AVAILABLE_SECTORS"
    "fctrStatusBytes st ! j = sector_code FCTR_SECTOR_EMPTY"
    by (simp_all add: find_first_Some_iff)
  then have "\<not> (\<forall>i. 1 \<le> i \<and> i < FCTR_AVAILABLE_SECTORS \<longrightarrow>
              fctrStatusBytes st ! i = sector_code FCTR_SECTOR_UNREAD)"
    by force
  with Some show ?thesis by (simp add: fctr_findSectorToWrite_def)
next
  case None
  let ?bs = "fctrStatusBytes st"
  let ?r = "reset_read_sectors ?bs False 1"
  show ?thesis
  proof (cases "snd ?r")
    case False
    then have "\<forall>i. 1 \<le> i \<and> i < FCTR_AVAILABLE_SECTORS \<longrightarrow> ?bs ! i = sector_code FCTR_SECTOR_UNREAD"
      by (simp add: reset_read_sectors_found)
    with False show ?thesis
      by (simp add: findSectorToWrite_no_empty [OF None] Let_def)
  next
    case True
    then obtain k where k: "1 \<le> k" "k < FCTR_AVAILABLE_SECTORS"
      "?bs ! k \<noteq> sector_code FCTR_SECTOR_UNREAD"
      by (auto simp: reset_read_sectors_found)
    have "(fst ?r)[0 := SIGNATURE_BYTE] ! k = sector_code FCTR_SECTOR_EMPTY"
      using k len by (simp add: reset_read_sectors_nth)
    with k have "find_first (sector_code FCTR_SECTOR_EMPTY) ((fst ?r)[0 := SIGNATURE_BYTE]) 0 \<noteq> None"
      by (auto simp: find_first_None_iff)
    with True k show ?thesis
      by (auto simp: findSectorToWrite_no_empty [OF None] Let_def)
  qed
qed

theorem findSectorToWrite_fails_iff_all_unread_witness:
  "fst (fctr_findSectorToWrite (state_with_table (table_of FCTR_SECTOR_UNREAD FCTR_SECTOR_UNREAD))) = None
   \<and> fst (fctr_findSectorToWrite (state_with_table (table_of FCTR_SECTOR_READ FCTR_SECTOR_UNREAD))) \<noteq> None"
proof -
  let ?t = "table_of FCTR_SECTOR_UNREAD FCTR_SECTOR_UNREAD"
  let ?u = "table_of FCTR_SECTOR_READ FCTR_SECTOR_UNREAD"
  have "\<forall>i. 1 \<le> i \<and> i < FCTR_AVAILABLE_SECTORS \<longrightarrow> ?t ! i = sector_code FCTR_SECTOR_UNREAD"
    by (simp add: table_of_nth)
  then have a: "fst (fctr_findSectorToWrite (state_with_table ?t)) = None"
    using findSectorToWrite_fails_iff_all_unread [of "state_with_table ?t"]
    by (simp add: table_of_length)
  have "?u ! 1 \<noteq> sector_code FCTR_SECTOR_UNREAD" by (simp add: table_of_nth N_val)
  then have "\<not> (\<forall>i. 1 \<le> i \<and> i < FCTR_AVAILABLE_SECTORS \<longrightarrow> ?u ! i = sector_code FCTR_SECTOR_UNREAD)"
    by (auto simp: N_val intro!: exI [of _ 1])
  then have b: "fst (fctr_findSectorToWrite (state_with_table ?u)) \<noteq> None"
    using findSectorToWrite_fails_iff_all_unread [of "state_with_table ?u"]
    by (simp add: table_of_length)
  from a b show ?thesis by simp
qed

text \<open>
  C10. \<open>fctr_findSectorToWrite\<close> never selects index 0, the Map Sector: the first scan
  starts at 1, and the rescan from 0 runs after the signature byte has been stored in
  entry 0, which differs from the EMPTY code.
\<close>

theorem findSectorToWrite_never_map_sector:
  assumes len: "length (fctrStatusBytes st) = FCTR_AVAILABLE_SECTORS"
  shows "fst (fctr_findSectorToWrite st) \<noteq> Some 0"
proof (cases "find_first (sector_code FCTR_SECTOR_EMPTY) (fctrStatusBytes st) 1")
  case (Some j)
  then have "1 \<le> j" by (simp add: find_first_Some_iff)
  with Some show ?thesis by (simp add: fctr_findSectorToWrite_def)
next
  case None
  let ?bs = "fst (reset_read_sectors (fctrStatusBytes st) False 1)"
  have "?bs[0 := SIGNATURE_BYTE] ! 0 = SIGNATURE_BYTE"
    using len by (simp add: reset_read_sectors_length N_val)
  then have "?bs[0 := SIGNATURE_BYTE] ! 0 \<noteq> sector_code FCTR_SECTOR_EMPTY"
    by (simp add: SIGNATURE_BYTE_def)
  then have "find_first (sector_code FCTR_SECTOR_EMPTY) (?bs[0 := SIGNATURE_BYTE]) 0 \<noteq> Some 0"
    by (simp add: find_first_Some_iff)
  then show ?thesis
    by (simp add: findSectorToWrite_no_empty [OF None] Let_def)
qed

theorem findSectorToWrite_never_map_sector_witness:
  "length (fctrStatusBytes (state_with_table (table_of FCTR_SECTOR_READ FCTR_SECTOR_UNREAD)))
     = FCTR_AVAILABLE_SECTORS
   \<and> fst (fctr_findSectorToWrite (state_with_table (table_of FCTR_SECTOR_READ FCTR_SECTOR_UNREAD)))
     \<noteq> Some 0"
  using findSectorToWrite_never_map_sector
    [of "state_with_table (table_of FCTR_SECTOR_READ FCTR_SECTOR_UNREAD)"]
  by (simp add: table_of_length)

text \<open>
  C3. When no entry at the indices \<open>1..N-1\<close> is EMPTY, \<open>fctr_findSectorToWrite\<close> leaves
  every UNREAD entry as it is and sets every other entry in \<open>1..N-1\<close> (READ, UNFORMATTED
  or any other byte) to EMPTY. If some entry changed, the device has received exactly one
  erase of the Map Sector followed by one write of the whole table, and the Map Sector
  reads back as the table; if none changed, the state is the one before the call.
\<close>

theorem compaction_effect:
  assumes len: "length (fctrStatusBytes st) = FCTR_AVAILABLE_SECTORS"
    and no_empty: "\<forall>i. 1 \<le> i \<and> i < FCTR_AVAILABLE_SECTORS \<longrightarrow>
                     fctrStatusBytes st ! i \<noteq> sector_code FCTR_SECTOR_EMPTY"
    and after: "st' = snd (fctr_findSectorToWrite st)"
  shows "(\<forall>i. 1 \<le> i \<and> i < FCTR_AVAILABLE_SECTORS \<longrightarrow>
            fctrStatusBytes st' ! i =
              (if fctrStatusBytes st ! i = sector_code FCTR_SECTOR_UNREAD
               then sector_code FCTR_SECTOR_UNREAD else sector_code FCTR_SECTOR_EMPTY))
       \<and> (if \<exists>i. 1 \<le> i \<and> i < FCTR_AVAILABLE_SECTORS \<and>
                  fctrStatusBytes st ! i \<noteq> sector_code FCTR_SECTOR_UNREAD
          then issued (w25qxx st') =
                 issued (w25qxx st) @
                   [Cmd_EraseSector (FCTR_RESERVED_OFFSET div FCTR_SECTOR_SIZE),
                    Cmd_WriteSector (fctrStatusBytes st') (FCTR_RESERVED_OFFSET div FCTR_SECTOR_SIZE)
                      0 FCTR_AVAILABLE_SECTORS]
               \<and> W25qxx_ReadSector (FCTR_RESERVED_OFFSET div FCTR_SECTOR_SIZE) 0
                    FCTR_AVAILABLE_SECTORS (w25qxx st') = fctrStatusBytes st'
          else st' = st)"
proof -
  let ?bs = "fctrStatusBytes st"
  let ?r = "reset_read_sectors ?bs False 1"
  let ?tbl = "(fst ?r)[0 := SIGNATURE_BYTE]"
  have none: "find_first (sector_code FCTR_SECTOR_EMPTY) ?bs 1 = None"
    using no_empty by (simp add: find_first_None_iff)
  note eq = findSectorToWrite_no_empty [OF none]
  have len_tbl: "length ?tbl = FCTR_AVAILABLE_SECTORS"
    using len by (simp add: reset_read_sectors_length)
  show ?thesis
  proof (cases "snd ?r")
    case False
    then have all: "\<forall>k. 1 \<le> k \<and> k < FCTR_AVAILABLE_SECTORS \<longrightarrow> ?bs ! k = sector_code FCTR_SECTOR_UNREAD"
      by (simp add: reset_read_sectors_found)
    then have "fst ?r = ?bs" by (rule reset_read_sectors_unchanged)
    with False have "st' = st" by (simp add: after eq Let_def)
    with all show ?thesis by simp
  next
    case True
    then have ex: "\<exists>i. 1 \<le> i \<and> i < FCTR_AVAILABLE_SECTORS \<and> ?bs ! i \<noteq> sector_code FCTR_SECTOR_UNREAD"
      by (simp add: reset_read_sectors_found)
    from True have st': "st' = st\<lparr>fctrStatusBytes := ?tbl,
        w25qxx := W25qxx_WriteSector ?tbl (FCTR_RESERVED_OFFSET div FCTR_SECTOR_SIZE) 0
          FCTR_AVAILABLE_SECTORS
          (W25qxx_EraseSector (FCTR_RESERVED_OFFSET div FCTR_SECTOR_SIZE) (w25qxx st))\<rparr>"
      by (simp add: after eq Let_def)
    have entries: "\<forall>i. 1 \<le> i \<and> i < FCTR_AVAILABLE_SECTORS \<longrightarrow>
            fctrStatusBytes st' ! i =
              (if ?bs ! i = sector_code FCTR_SECTOR_UNREAD
               then sector_code FCTR_SECTOR_UNREAD else sector_code FCTR_SECTOR_EMPTY)"
      using len by (auto simp: st' reset_read_sectors_nth)
    have "issued (w25qxx st') = issued (w25qxx st) @
                   [Cmd_EraseSector (FCTR_RESERVED_OFFSET div FCTR_SECTOR_SIZE),
                    Cmd_WriteSector (fctrStatusBytes st') (FCTR_RESERVED_OFFSET div FCTR_SECTOR_SIZE)
                      0 FCTR_AVAILABLE_SECTORS]"
      by (simp add: st' erase_write_issued)
    moreover have "W25qxx_ReadSector (FCTR_RESERVED_OFFSET div FCTR_SECTOR_SIZE) 0
                    FCTR_AVAILABLE_SECTORS (w25qxx st') = fctrStatusBytes st'"
      using len_tbl N_le_sector by (simp add: st' erase_write_read)
    ultimately show ?thesis using entries ex by simp
  qed
qed

theorem compaction_effect_witness:
  "fctrStatusBytes (snd (fctr_findSectorToWrite
       (state_with_table (table_of FCTR_SECTOR_READ FCTR_SECTOR_UNREAD)))) ! 1
     = sector_code FCTR_SECTOR_EMPTY
   \<and> fctrStatusBytes (snd (fctr_findSectorToWrite
       (state_with_table (table_of FCTR_SECTOR_READ FCTR_SECTOR_UNREAD)))) ! 2
     = sector_code FCTR_SECTOR_UNREAD
   \<and> issued (w25qxx (snd (fctr_findSectorToWrite
       (state_with_table (table_of FCTR_SECTOR_READ FCTR_SECTOR_UNREAD))))) =
       [Cmd_EraseSector 256,
        Cmd_WriteSector (fctrStatusBytes (snd (fctr_findSectorToWrite
            (state_with_table (table_of FCTR_SECTOR_READ FCTR_SECTOR_UNREAD))))) 256 0 1792]"
proof -
  let ?st = "state_with_table (table_of FCTR_SECTOR_READ FCTR_SECTOR_UNREAD)"
  let ?t = "table_of FCTR_SECTOR_READ FCTR_SECTOR_UNREAD"
  have len: "length (fctrStatusBytes ?st) = FCTR_AVAILABLE_SECTORS"
    by (simp add: table_of_length)
  have no_empty: "\<forall>i. 1 \<le> i \<and> i < FCTR_AVAILABLE_SECTORS \<longrightarrow>
                     fctrStatusBytes ?st ! i \<noteq> sector_code FCTR_SECTOR_EMPTY"
    by (simp add: table_of_nth)
  have t1: "?t ! 1 = sector_code FCTR_SECTOR_READ" and t2: "?t ! 2 = sector_code FCTR_SECTOR_UNREAD"
    by (simp_all add: table_of_nth N_val)
  have ex: "\<exists>i. 1 \<le> i \<and> i < FCTR_AVAILABLE_SECTORS \<and> ?t ! i \<noteq> sector_code FCTR_SECTOR_UNREAD"
    using t1 by (intro exI [of _ 1]) (simp add: N_val)
  have iss: "issued (w25qxx ?st) = []"
    by (simp add: state_with_table_def chip_with_table_def)
  from compaction_effect [OF len no_empty refl] ex t1 t2 iss show ?thesis
    by (simp add: N_val map_sector_val)
qed

section \<open>The status transition\<close>

text \<open>
  C1, as the code has it. When \<open>fctr_changeSectorStatus\<close> fails because the byte read back
  differs from the byte written, the table entry at that index has nevertheless been set
  to the new code (the store at line 303 follows the \<open>if\<close>/\<open>else\<close> and is unconditional);
  no other entry changes.
\<close>

theorem changeSectorStatus_stores_on_failure:
  assumes "i < FCTR_AVAILABLE_SECTORS"
    and "length (fctrStatusBytes st) = FCTR_AVAILABLE_SECTORS"
    and "fst (fctr_changeSectorStatus s i st) = FCTRSTAT_ERROR"
  shows "fctrStatusBytes (snd (fctr_changeSectorStatus s i st)) =
           (fctrStatusBytes st)[i := sector_code s]
         \<and> fctrStatusBytes (snd (fctr_changeSectorStatus s i st)) ! i = sector_code s"
  using assms by (simp add: fctr_changeSectorStatus_eq)

theorem changeSectorStatus_stores_on_failure_witness:
  "fst (fctr_changeSectorStatus FCTR_SECTOR_UNREAD 1
          (state_with_table (table_of FCTR_SECTOR_READ FCTR_SECTOR_EMPTY))) = FCTRSTAT_ERROR
   \<and> fctrStatusBytes (snd (fctr_changeSectorStatus FCTR_SECTOR_UNREAD 1
          (state_with_table (table_of FCTR_SECTOR_READ FCTR_SECTOR_EMPTY)))) ! 1
     = sector_code FCTR_SECTOR_UNREAD"
proof -
  let ?t = "table_of FCTR_SECTOR_READ FCTR_SECTOR_EMPTY"
  let ?st = "state_with_table ?t"
  have one: "(1::nat) < FCTR_AVAILABLE_SECTORS" by (simp add: N_val)
  have t1: "?t ! 1 = 0x5C" using table_of_nth [OF one, of FCTR_SECTOR_READ FCTR_SECTOR_EMPTY] by simp
  have cell: "cells (w25qxx ?st) (FCTR_RESERVED_OFFSET + 1) = 0x5C"
    using chip_with_table_cells [of 1 ?t] one t1 by (simp add: table_of_length)
  have err: "fst (fctr_changeSectorStatus FCTR_SECTOR_UNREAD 1 ?st) = FCTRSTAT_ERROR"
    using fctr_changeSectorStatus_eq [OF one, of FCTR_SECTOR_UNREAD ?st] cell by simp
  have len: "length (fctrStatusBytes ?st) = FCTR_AVAILABLE_SECTORS" by (simp add: table_of_length)
  from changeSectorStatus_stores_on_failure [OF one len err] err show ?thesis by blast
qed

text \<open>
  C1, as stated, fails: sector 1 is READ in the table and in the Map Sector, the write of
  UNREAD cannot set the cleared bit again, the call fails on read-back, and the table entry
  has changed from READ to UNREAD.
\<close>

theorem changeSectorStatus_mirror_counterexample:
  "fst (fctr_changeSectorStatus FCTR_SECTOR_UNREAD 1
          (state_with_table (table_of FCTR_SECTOR_READ FCTR_SECTOR_EMPTY))) = FCTRSTAT_ERROR
   \<and> fctrStatusBytes (snd (fctr_changeSectorStatus FCTR_SECTOR_UNREAD 1
          (state_with_table (table_of FCTR_SECTOR_READ FCTR_SECTOR_EMPTY)))) ! 1
     \<noteq> fctrStatusBytes (state_with_table (table_of FCTR_SECTOR_READ FCTR_SECTOR_EMPTY)) ! 1"
proof -
  let ?t = "table_of FCTR_SECTOR_READ FCTR_SECTOR_EMPTY"
  have one: "(1::nat) < FCTR_AVAILABLE_SECTORS" by (simp add: N_val)
  have t1: "?t ! 1 = 0x5C" using table_of_nth [OF one, of FCTR_SECTOR_READ FCTR_SECTOR_EMPTY] by simp
  have cell: "cells (w25qxx (state_with_table ?t)) (FCTR_RESERVED_OFFSET + 1) = 0x5C"
    using chip_with_table_cells [of 1 ?t] one t1 by (simp add: table_of_length)
  have len: "1 < length ?t" using one by (simp add: table_of_length)
  show ?thesis
    using fctr_changeSectorStatus_eq
            [OF one, of FCTR_SECTOR_UNREAD "state_with_table ?t"] cell t1 len
    by simp
qed

section \<open>Initialisation\<close>

text \<open>The first load (line 214) fits the table and replaces it.\<close>

lemma first_load:
  "load_status_bytes (snd (fctr_readSectorStatus st)) st =
     Some (st\<lparr>fctrStatusBytes :=
                W25qxx_ReadSector (FCTR_RESERVED_OFFSET div FCTR_SECTOR_SIZE) 0
                  FCTR_AVAILABLE_SECTORS (w25qxx st)
                @ drop FCTR_AVAILABLE_SECTORS (fctrStatusBytes st)\<rparr>)"
  by (simp add: load_status_bytes_def fctr_readSectorStatus_def)

lemma signature_slot:
  "(W25qxx_ReadSector (FCTR_RESERVED_OFFSET div FCTR_SECTOR_SIZE) 0 FCTR_AVAILABLE_SECTORS dev
      @ rest) ! 0 = cells dev FCTR_RESERVED_OFFSET"
proof -
  have "0 < FCTR_AVAILABLE_SECTORS" by (simp add: N_val)
  moreover have "FCTR_RESERVED_OFFSET div FCTR_SECTOR_SIZE * FCTR_SECTOR_SIZE = FCTR_RESERVED_OFFSET"
    by (simp add: FCTR_RESERVED_OFFSET_def FCTR_SECTOR_SIZE_def)
  ultimately show ?thesis by (simp add: nth_append)
qed

text \<open>The re-read of line 227 does not fit the table.\<close>

lemma second_load:
  "load_status_bytes (snd (fctr_readSector 0 st)) st' = None"
proof -
  have "\<not> FCTR_SECTOR_SIZE \<le> FCTR_AVAILABLE_SECTORS"
    by (simp add: N_val FCTR_SECTOR_SIZE_def)
  then show ?thesis
    by (simp add: load_status_bytes_def fctr_readSector_def Let_def)
qed

text \<open>\<open>fctr_firstInit\<close>, path by path.\<close>

lemma fctr_firstInit_eq:
  "fctr_firstInit st =
     (if \<not> Init_result (w25qxx st) \<or>
         unat (CapacityInKiloByte (w25qxx st)) < FCTR_SIZE_OF_KILOBYTE
      then Some (FCTRSTAT_ERROR, st)
      else if cells (w25qxx st) FCTR_RESERVED_OFFSET \<noteq> SIGNATURE_BYTE then None
      else Some (FCTRSTAT_OK,
             st\<lparr>fctrStatusBytes :=
                  W25qxx_ReadSector (FCTR_RESERVED_OFFSET div FCTR_SECTOR_SIZE) 0
                    FCTR_AVAILABLE_SECTORS (w25qxx st)
                  @ drop FCTR_AVAILABLE_SECTORS (fctrStatusBytes st)\<rparr>))"
proof -
  have rd: "fctr_readSectorStatus st = (FCTRSTAT_OK, snd (fctr_readSectorStatus st))"
    by (simp add: fctr_readSectorStatus_def)
  have rd2: "fctr_readSector 0 st' = (FCTRSTAT_OK, snd (fctr_readSector 0 st'))" for st'
    by (simp add: fctr_readSector_def Let_def)
  show ?thesis
    unfolding fctr_firstInit_def
    by (subst rd, subst rd2)
       (simp add: fctr_initIC_def W25qxx_Init_def fctr_getFlashSizes_def Let_def
          first_load second_load signature_slot)
qed

text \<open>
  C9. \<open>fctr_firstInit\<close> returns failure exactly when the device does not initialise or when
  it reports less than \<open>FCTR_SIZE_OF_KILOBYTE\<close> kilobytes. The reported sector count and
  sector size, and a capacity other than the compiled one, have no influence: on a
  formatted medium every device that initialises and reports enough capacity is accepted.
\<close>

theorem firstInit_failure_causes:
  "(map_option fst (fctr_firstInit st) = Some FCTRSTAT_ERROR) =
     (\<not> Init_result (w25qxx st) \<or>
      unat (CapacityInKiloByte (w25qxx st)) < FCTR_SIZE_OF_KILOBYTE)
   \<and> (Init_result (w25qxx st) \<and>
       \<not> unat (CapacityInKiloByte (w25qxx st)) < FCTR_SIZE_OF_KILOBYTE \<and>
       cells (w25qxx st) FCTR_RESERVED_OFFSET = SIGNATURE_BYTE \<longrightarrow>
       map_option fst (fctr_firstInit st) = Some FCTRSTAT_OK)"
  by (simp add: fctr_firstInit_eq)

theorem firstInit_failure_causes_witness:
  "map_option fst (fctr_firstInit mismatched_state) = Some FCTRSTAT_OK
   \<and> map_option fst (fctr_firstInit
        (mismatched_state\<lparr>w25qxx := (w25qxx mismatched_state)\<lparr>Init_result := False\<rparr>\<rparr>))
       = Some FCTRSTAT_ERROR
   \<and> map_option fst (fctr_firstInit
        (mismatched_state\<lparr>w25qxx := (w25qxx mismatched_state)\<lparr>CapacityInKiloByte := 1023\<rparr>\<rparr>))
       = Some FCTRSTAT_ERROR"
proof -
  have sig: "cells (w25qxx mismatched_state) FCTR_RESERVED_OFFSET = SIGNATURE_BYTE"
    by (simp add: mismatched_state_def chip_with_table_def table_of_def)
  have ok: "Init_result (w25qxx mismatched_state)"
    "\<not> unat (CapacityInKiloByte (w25qxx mismatched_state)) < FCTR_SIZE_OF_KILOBYTE"
    by (simp_all add: mismatched_state_def chip_with_table_def FCTR_SIZE_OF_KILOBYTE_def)
  have small: "unat (1023 :: 32 word) < FCTR_SIZE_OF_KILOBYTE"
    by (simp add: FCTR_SIZE_OF_KILOBYTE_def)
  from firstInit_failure_causes [of mismatched_state] sig ok
  have a: "map_option fst (fctr_firstInit mismatched_state) = Some FCTRSTAT_OK"
    by blast
  from firstInit_failure_causes
    [of "mismatched_state\<lparr>w25qxx := (w25qxx mismatched_state)\<lparr>Init_result := False\<rparr>\<rparr>"]
  have b: "map_option fst (fctr_firstInit
        (mismatched_state\<lparr>w25qxx := (w25qxx mismatched_state)\<lparr>Init_result := False\<rparr>\<rparr>))
       = Some FCTRSTAT_ERROR"
    by simp
  from firstInit_failure_causes
    [of "mismatched_state\<lparr>w25qxx := (w25qxx mismatched_state)\<lparr>CapacityInKiloByte := 1023\<rparr>\<rparr>"]
    small
  have c: "map_option fst (fctr_firstInit
        (mismatched_state\<lparr>w25qxx := (w25qxx mismatched_state)\<lparr>CapacityInKiloByte := 1023\<rparr>\<rparr>))
       = Some FCTRSTAT_ERROR"
    by simp
  from a b c show ?thesis by simp
qed

text \<open>
  The reformat branch (lines 221-230). \<open>fctr_formatTheMemorySpace\<close> leaves the table and
  the Map Sector as a reformat should: entry 0 the signature, every entry \<open>1..N-1\<close> EMPTY.
  A re-read through \<open>fctr_readSectorStatus\<close>, as at line 214, would fit and would leave
  that table in place.
\<close>

lemma format_then_status_read:
  assumes "st2 = snd (fctr_formatTheMemorySpace st1)"
  shows "fctrStatusBytes st2 = formatted_table"
    and "load_status_bytes (snd (fctr_readSectorStatus st2)) st2 = Some st2"
proof -
  let ?M = "FCTR_RESERVED_OFFSET div FCTR_SECTOR_SIZE"
  show tbl: "fctrStatusBytes st2 = formatted_table"
    by (simp add: assms fctr_formatTheMemorySpace_eq)
  have "W25qxx_ReadSector ?M 0 FCTR_AVAILABLE_SECTORS (w25qxx st2) = formatted_table"
    using N_le_sector by (simp add: assms fctr_formatTheMemorySpace_eq erase_write_read)
  then show "load_status_bytes (snd (fctr_readSectorStatus st2)) st2 = Some st2"
    by (simp add: first_load tbl)
qed

text \<open>
  The re-read of the source goes through \<open>fctr_readSector\<close> instead: whenever the
  signature slot does not hold 0x55, \<open>fctr_firstInit\<close> stores \<open>FCTR_SECTOR_SIZE\<close> bytes
  into the table of \<open>FCTR_AVAILABLE_SECTORS\<close> bytes and has no defined result.
\<close>

lemma firstInit_reformat_undefined:
  assumes "fctr_initIC st = FCTRSTAT_OK"
    and "fst (fctr_getFlashSizes st) = FCTRSTAT_OK"
    and "cells (w25qxx st) FCTR_RESERVED_OFFSET \<noteq> SIGNATURE_BYTE"
  shows "fctr_firstInit st = None"
  using assms
  by (simp add: fctr_firstInit_eq fctr_initIC_def W25qxx_Init_def fctr_getFlashSizes_def
      Let_def split: if_splits)

text \<open>
  C8, at a chip that is erased throughout (signature slot 0xFF) and has the compiled
  geometry. \<open>fctr_firstInit\<close> takes the reformat branch and, after formatting, re-reads
  4096 bytes into the 1792 bytes of the table: the call has no defined result, hence no
  table in which entry 0 is the signature and the entries \<open>1..N-1\<close> are EMPTY.
\<close>

theorem firstInit_erased_chip_overflows:
  "fctr_firstInit erased_chip_state = None
   \<and> cells (w25qxx erased_chip_state) FCTR_RESERVED_OFFSET = 0xFF
   \<and> length (snd (fctr_readSector 0 erased_chip_state)) = 4096
   \<and> length (fctrStatusBytes erased_chip_state) = 1792"
proof -
  have init: "fctr_initIC erased_chip_state = FCTRSTAT_OK"
    by (simp add: fctr_initIC_def W25qxx_Init_def erased_chip_state_def chip_with_table_def)
  have sizes: "fst (fctr_getFlashSizes erased_chip_state) = FCTRSTAT_OK"
    by (simp add: fctr_getFlashSizes_def erased_chip_state_def chip_with_table_def
          FCTR_SIZE_OF_KILOBYTE_def)
  have slot: "cells (w25qxx erased_chip_state) FCTR_RESERVED_OFFSET = 0xFF"
    by (simp add: erased_chip_state_def chip_with_table_def)
  then have sig: "cells (w25qxx erased_chip_state) FCTR_RESERVED_OFFSET \<noteq> SIGNATURE_BYTE"
    by (simp add: SIGNATURE_BYTE_def)
  have "length (snd (fctr_readSector 0 erased_chip_state)) = 4096"
    by (simp add: fctr_readSector_def Let_def FCTR_SECTOR_SIZE_def)
  moreover have "length (fctrStatusBytes erased_chip_state) = 1792"
    by (simp add: erased_chip_state_def N_val)
  ultimately show ?thesis
    using firstInit_reformat_undefined [OF init sizes sig] slot by simp
qed

section \<open>Push and pop\<close>

text \<open>One push into a table whose first EMPTY entry is \<open>j\<close>.\<close>

lemma push_into_first_empty:
  assumes len: "length (fctrStatusBytes st) = FCTR_AVAILABLE_SECTORS"
    and j: "1 \<le> j" "j < FCTR_AVAILABLE_SECTORS"
    and filled: "\<forall>i. 1 \<le> i \<and> i < j \<longrightarrow> fctrStatusBytes st ! i \<noteq> sector_code FCTR_SECTOR_EMPTY"
    and free: "fctrStatusBytes st ! j = sector_code FCTR_SECTOR_EMPTY"
    and dev: "status_write_succeeds FCTR_SECTOR_UNREAD j st"
  shows "fctr_pushToFlash X st =
     (FCTRSTAT_OK,
      st\<lparr>w25qxx := W25qxx_WriteByte (sector_code FCTR_SECTOR_UNREAD) (FCTR_RESERVED_OFFSET + j)
                      (w25qxx (snd (fctr_writeSector X j st))),
         fctrStatusBytes := (fctrStatusBytes st)[j := sector_code FCTR_SECTOR_UNREAD]\<rparr>)"
proof -
  have "find_first (sector_code FCTR_SECTOR_EMPTY) (fctrStatusBytes st) 1 = Some j"
    using j filled free by (simp add: find_first_Some_iff)
  then have find: "fctr_findSectorToWrite st = (Some j, st)"
    by (simp add: fctr_findSectorToWrite_def)
  obtain st2 where w: "fctr_writeSector X j st = (FCTRSTAT_OK, st2)"
    by (metis fctr_writeSector_fst prod.collapse)
  then have st2: "st2 = snd (fctr_writeSector X j st)" by simp
  have "cells (w25qxx st2) (FCTR_RESERVED_OFFSET + j) = cells (w25qxx st) (FCTR_RESERVED_OFFSET + j)"
    unfolding st2 using j N_le_sector by (intro fctr_writeSector_map_cells) simp_all
  with dev j have ok: "cells (w25qxx st2) (FCTR_RESERVED_OFFSET + j) AND sector_code FCTR_SECTOR_UNREAD
      = sector_code FCTR_SECTOR_UNREAD"
    by (simp add: status_write_succeeds_iff)
  have "fctr_changeSectorStatus FCTR_SECTOR_UNREAD j st2 =
     (FCTRSTAT_OK,
      st2\<lparr>w25qxx := W25qxx_WriteByte (sector_code FCTR_SECTOR_UNREAD) (FCTR_RESERVED_OFFSET + j) (w25qxx st2),
         fctrStatusBytes := (fctrStatusBytes st2)[j := sector_code FCTR_SECTOR_UNREAD]\<rparr>)"
    using ok by (simp add: fctr_changeSectorStatus_eq [OF j(2)])
  moreover have "st2 = st\<lparr>w25qxx := w25qxx st2\<rparr>"
    unfolding st2 by (rule fctr_writeSector_frame)
  moreover have "fctrStatusBytes st2 = fctrStatusBytes st" by (simp add: st2)
  ultimately have "fctr_changeSectorStatus FCTR_SECTOR_UNREAD j st2 =
     (FCTRSTAT_OK,
      st\<lparr>w25qxx := W25qxx_WriteByte (sector_code FCTR_SECTOR_UNREAD) (FCTR_RESERVED_OFFSET + j) (w25qxx st2),
         fctrStatusBytes := (fctrStatusBytes st)[j := sector_code FCTR_SECTOR_UNREAD]\<rparr>)"
    by (metis (no_types, lifting) fctr_t.update_convs(2) fctr_t.surjective fctr_t.update_convs(1))
  then show ?thesis
    by (simp add: fctr_pushToFlash_def find w st2 [symmetric])
qed

lemma push_keeps_filling:
  assumes inv: "filled_upto k st" and k: "Suc k < FCTR_AVAILABLE_SECTORS"
  shows "fst (fctr_pushToFlash X st) = FCTRSTAT_OK"
    and "filled_upto (Suc k) (snd (fctr_pushToFlash X st))"
proof -
  let ?U = "sector_code FCTR_SECTOR_UNREAD"
  let ?bs = "fctrStatusBytes st"
  from inv have len: "length ?bs = FCTR_AVAILABLE_SECTORS"
    and filled: "\<And>i. 1 \<le> i \<Longrightarrow> i \<le> k \<Longrightarrow> ?bs ! i = ?U"
    and free: "\<And>i. k < i \<Longrightarrow> i < FCTR_AVAILABLE_SECTORS \<Longrightarrow> ?bs ! i = sector_code FCTR_SECTOR_EMPTY"
    and dev: "\<And>i. k < i \<Longrightarrow> i < FCTR_AVAILABLE_SECTORS \<Longrightarrow> status_write_succeeds FCTR_SECTOR_UNREAD i st"
    by (simp_all add: filled_upto_def)
  have "\<forall>i. 1 \<le> i \<and> i < Suc k \<longrightarrow> ?bs ! i \<noteq> sector_code FCTR_SECTOR_EMPTY"
    using filled by simp
  then have push: "fctr_pushToFlash X st =
     (FCTRSTAT_OK,
      st\<lparr>w25qxx := W25qxx_WriteByte ?U (FCTR_RESERVED_OFFSET + Suc k)
                      (w25qxx (snd (fctr_writeSector X (Suc k) st))),
         fctrStatusBytes := ?bs[Suc k := ?U]\<rparr>)"
    using len k free [of "Suc k"] dev [of "Suc k"]
    by (intro push_into_first_empty) simp_all
  show "fst (fctr_pushToFlash X st) = FCTRSTAT_OK" by (simp add: push)
  have later: "status_write_succeeds FCTR_SECTOR_UNREAD i (snd (fctr_pushToFlash X st))"
    if i: "Suc k < i" "i < FCTR_AVAILABLE_SECTORS" for i
  proof -
    have "FCTR_RESERVED_OFFSET + i < FCTR_RESERVED_OFFSET + FCTR_SECTOR_SIZE"
      using i N_le_sector by simp
    then have "cells (w25qxx (snd (fctr_writeSector X (Suc k) st))) (FCTR_RESERVED_OFFSET + i)
        = cells (w25qxx st) (FCTR_RESERVED_OFFSET + i)"
      using k by (intro fctr_writeSector_map_cells) simp_all
    moreover have "cells (w25qxx st) (FCTR_RESERVED_OFFSET + i) AND ?U = ?U"
      using dev [of i] i by (simp add: status_write_succeeds_iff)
    ultimately show ?thesis
      using i by (simp add: push status_write_succeeds_iff WriteByte_cells)
  qed
  show "filled_upto (Suc k) (snd (fctr_pushToFlash X st))"
    unfolding filled_upto_def
  proof (intro conjI allI impI)
    show "length (fctrStatusBytes (snd (fctr_pushToFlash X st))) = FCTR_AVAILABLE_SECTORS"
      using len by (simp add: push)
  next
    fix i assume "1 \<le> i \<and> i \<le> Suc k"
    then show "fctrStatusBytes (snd (fctr_pushToFlash X st)) ! i = ?U"
      using filled [of i] len k by (cases "i = Suc k") (simp_all add: push)
  next
    fix i assume "Suc k < i \<and> i < FCTR_AVAILABLE_SECTORS"
    then show "fctrStatusBytes (snd (fctr_pushToFlash X st)) ! i = sector_code FCTR_SECTOR_EMPTY"
      using free [of i] by (simp add: push)
  next
    fix i assume "Suc k < i \<and> i < FCTR_AVAILABLE_SECTORS"
    then show "status_write_succeeds FCTR_SECTOR_UNREAD i (snd (fctr_pushToFlash X st))"
      using later by simp
  qed
qed

lemma push_all_fills:
  assumes "filled_upto k st" and "k + length ps < FCTR_AVAILABLE_SECTORS"
  shows "fst (push_all ps st) = replicate (length ps) FCTRSTAT_OK
       \<and> filled_upto (k + length ps) (snd (push_all ps st))"
  using assms
proof (induction ps arbitrary: k st)
  case Nil
  then show ?case by simp
next
  case (Cons p ps)
  from Cons.prems have k: "Suc k < FCTR_AVAILABLE_SECTORS" by simp
  note step = push_keeps_filling [OF Cons.prems(1) k, of p]
  from Cons.prems have "Suc k + length ps < FCTR_AVAILABLE_SECTORS" by simp
  from Cons.IH [OF step(2) this] step(1) show ?case
    by (simp add: split_beta)
qed

lemma findSectorToWrite_all_unread:
  assumes "\<forall>i. 1 \<le> i \<and> i < FCTR_AVAILABLE_SECTORS \<longrightarrow>
             fctrStatusBytes st ! i = sector_code FCTR_SECTOR_UNREAD"
  shows "fctr_findSectorToWrite st = (None, st)"
proof -
  have none: "find_first (sector_code FCTR_SECTOR_EMPTY) (fctrStatusBytes st) 1 = None"
    using assms by (simp add: find_first_None_iff)
  have "\<not> snd (reset_read_sectors (fctrStatusBytes st) False 1)"
    using assms by (simp add: reset_read_sectors_found)
  moreover have "fst (reset_read_sectors (fctrStatusBytes st) False 1) = fctrStatusBytes st"
    using assms by (rule reset_read_sectors_unchanged)
  ultimately show ?thesis
    by (simp add: findSectorToWrite_no_empty [OF none] Let_def)
qed

lemma formatted_table_ready:
  "length (fctrStatusBytes (state_with_table (table_of FCTR_SECTOR_EMPTY FCTR_SECTOR_EMPTY)))
     = FCTR_AVAILABLE_SECTORS"
  "\<forall>i. 1 \<le> i \<and> i < FCTR_AVAILABLE_SECTORS \<longrightarrow>
     fctrStatusBytes (state_with_table (table_of FCTR_SECTOR_EMPTY FCTR_SECTOR_EMPTY)) ! i
       = sector_code FCTR_SECTOR_EMPTY"
  "\<forall>i. 1 \<le> i \<and> i < FCTR_AVAILABLE_SECTORS \<longrightarrow>
     status_write_succeeds FCTR_SECTOR_UNREAD i
       (state_with_table (table_of FCTR_SECTOR_EMPTY FCTR_SECTOR_EMPTY))"
  by (simp_all add: table_of_length table_of_nth status_write_succeeds_iff chip_with_table_cells)

text \<open>
  C6. From a table whose usable entries \<open>1..N-1\<close> are all EMPTY, on a device that takes
  the UNREAD mark in every usable status slot, \<open>N-1\<close> consecutive pushes all succeed; the
  next push fails, and it fails in the Allocator: no entry is EMPTY and none can be
  reclaimed.
\<close>

theorem push_until_full:
  assumes len: "length (fctrStatusBytes st) = FCTR_AVAILABLE_SECTORS"
    and empty: "\<forall>i. 1 \<le> i \<and> i < FCTR_AVAILABLE_SECTORS \<longrightarrow>
                  fctrStatusBytes st ! i = sector_code FCTR_SECTOR_EMPTY"
    and dev: "\<forall>i. 1 \<le> i \<and> i < FCTR_AVAILABLE_SECTORS \<longrightarrow>
                status_write_succeeds FCTR_SECTOR_UNREAD i st"
    and n: "length ps = FCTR_AVAILABLE_SECTORS - 1"
  shows "fst (push_all ps st) = replicate (FCTR_AVAILABLE_SECTORS - 1) FCTRSTAT_OK
       \<and> fst (fctr_pushToFlash p (snd (push_all ps st))) = FCTRSTAT_ERROR
       \<and> fst (fctr_findSectorToWrite (snd (push_all ps st))) = None"
proof -
  have start: "filled_upto 0 st"
    using len empty dev by (simp add: filled_upto_def Suc_le_eq)
  have "0 + length ps < FCTR_AVAILABLE_SECTORS" using n by (simp add: N_val)
  from push_all_fills [OF start this]
  have ok: "fst (push_all ps st) = replicate (FCTR_AVAILABLE_SECTORS - 1) FCTRSTAT_OK"
    and full: "filled_upto (FCTR_AVAILABLE_SECTORS - 1) (snd (push_all ps st))"
    by (simp_all add: n)
  from full have "\<forall>i. 1 \<le> i \<and> i < FCTR_AVAILABLE_SECTORS \<longrightarrow>
      fctrStatusBytes (snd (push_all ps st)) ! i = sector_code FCTR_SECTOR_UNREAD"
    by (auto simp: filled_upto_def)
  then have "fctr_findSectorToWrite (snd (push_all ps st)) = (None, snd (push_all ps st))"
    by (rule findSectorToWrite_all_unread)
  with ok show ?thesis by (simp add: fctr_pushToFlash_def)
qed

theorem push_until_full_witness:
  "fst (push_all (replicate (FCTR_AVAILABLE_SECTORS - 1) (replicate FCTR_SECTOR_SIZE 0xA5))
          (state_with_table (table_of FCTR_SECTOR_EMPTY FCTR_SECTOR_EMPTY)))
     = replicate (FCTR_AVAILABLE_SECTORS - 1) FCTRSTAT_OK
   \<and> fst (fctr_pushToFlash (replicate FCTR_SECTOR_SIZE 0xA5)
        (snd (push_all (replicate (FCTR_AVAILABLE_SECTORS - 1) (replicate FCTR_SECTOR_SIZE 0xA5))
          (state_with_table (table_of FCTR_SECTOR_EMPTY FCTR_SECTOR_EMPTY)))))
     = FCTRSTAT_ERROR"
  using push_until_full [OF formatted_table_ready,
    of "replicate (FCTR_AVAILABLE_SECTORS - 1) (replicate FCTR_SECTOR_SIZE 0xA5)"
       "replicate FCTR_SECTOR_SIZE 0xA5"]
  by simp

text \<open>
  C7. From the same starting states, for every payload \<open>X\<close> of exactly one sector, a push
  of \<open>X\<close> followed by a pop both succeed, and the buffer the pop fills equals \<open>X\<close>.
\<close>

theorem push_pop_roundtrip:
  assumes len: "length (fctrStatusBytes st) = FCTR_AVAILABLE_SECTORS"
    and empty: "\<forall>i. 1 \<le> i \<and> i < FCTR_AVAILABLE_SECTORS \<longrightarrow>
                  fctrStatusBytes st ! i = sector_code FCTR_SECTOR_EMPTY"
    and dev: "\<forall>i. 1 \<le> i \<and> i < FCTR_AVAILABLE_SECTORS \<longrightarrow>
                status_write_succeeds FCTR_SECTOR_UNREAD i st"
    and X: "length X = FCTR_SECTOR_SIZE"
  shows "fst (fctr_pushToFlash X st) = FCTRSTAT_OK
       \<and> fst (fctr_popFromFlash buf (snd (fctr_pushToFlash X st))) = FCTRSTAT_OK
       \<and> fst (snd (fctr_popFromFlash buf (snd (fctr_pushToFlash X st)))) = X"
proof -
  let ?U = "sector_code FCTR_SECTOR_UNREAD"
  let ?bs = "fctrStatusBytes st"
  let ?devw = "w25qxx (snd (fctr_writeSector X 1 st))"
  let ?st1 = "st\<lparr>w25qxx := W25qxx_WriteByte ?U (FCTR_RESERVED_OFFSET + 1) ?devw,
                  fctrStatusBytes := ?bs[1 := ?U]\<rparr>"
  have one: "(1::nat) < FCTR_AVAILABLE_SECTORS" by (simp add: N_val)
  have push: "fctr_pushToFlash X st = (FCTRSTAT_OK, ?st1)"
    using len empty dev one by (intro push_into_first_empty) simp_all
  have "find_first ?U (fctrStatusBytes ?st1) 1 = Some 1"
    using len one by (simp add: find_first_Some_iff)
  then have find: "fctr_findSectorToRead ?st1 = (Some 1, ?st1)"
    by (simp add: fctr_findSectorToRead_def)
  have "W25qxx_ReadSector (256 + 1) 0 FCTR_SECTOR_SIZE (w25qxx ?st1) =
        W25qxx_ReadSector (256 + 1) 0 FCTR_SECTOR_SIZE ?devw"
    by (rule nth_equalityI)
       (simp_all add: WriteByte_cells FCTR_SECTOR_SIZE_def FCTR_RESERVED_OFFSET_def)
  also have "\<dots> = X" using one X by (rule fctr_writeSector_read)
  finally have "W25qxx_ReadSector (256 + 1) 0 FCTR_SECTOR_SIZE (w25qxx ?st1) = X" .
  then have read: "fctr_readSector 1 ?st1 = (FCTRSTAT_OK, X)"
    unfolding fctr_readSector_def by (simp only: data_sector_address [OF one]) simp
  have "cells ?devw (FCTR_RESERVED_OFFSET + 1) = cells (w25qxx st) (FCTR_RESERVED_OFFSET + 1)"
    using one by (intro fctr_writeSector_map_cells) (simp_all add: FCTR_SECTOR_SIZE_def)
  moreover have "status_write_succeeds FCTR_SECTOR_UNREAD 1 st"
    using dev one by simp
  then have "cells (w25qxx st) (FCTR_RESERVED_OFFSET + 1) AND ?U = ?U"
    using one by (simp only: status_write_succeeds_iff)
  ultimately have "cells (w25qxx ?st1) (FCTR_RESERVED_OFFSET + 1) = ?U"
    by (simp add: WriteByte_cells)
  then have "fst (fctr_changeSectorStatus FCTR_SECTOR_READ 1 ?st1) = FCTRSTAT_OK"
    using fctr_changeSectorStatus_eq [OF one, of FCTR_SECTOR_READ ?st1] by simp
  then obtain st2 where "fctr_changeSectorStatus FCTR_SECTOR_READ 1 ?st1 = (FCTRSTAT_OK, st2)"
    by (metis prod.collapse)
  then have "fst (fctr_popFromFlash buf ?st1) = FCTRSTAT_OK
      \<and> fst (snd (fctr_popFromFlash buf ?st1)) = X"
    using find read by (simp add: fctr_popFromFlash_def)
  then show ?thesis by (simp add: push)
qed

theorem push_pop_roundtrip_witness:
  "fst (fctr_pushToFlash (replicate FCTR_SECTOR_SIZE 0xA5)
          (state_with_table (table_of FCTR_SECTOR_EMPTY FCTR_SECTOR_EMPTY))) = FCTRSTAT_OK
   \<and> fst (fctr_popFromFlash []
        (snd (fctr_pushToFlash (replicate FCTR_SECTOR_SIZE 0xA5)
          (state_with_table (table_of FCTR_SECTOR_EMPTY FCTR_SECTOR_EMPTY))))) = FCTRSTAT_OK
   \<and> fst (snd (fctr_popFromFlash []
        (snd (fctr_pushToFlash (replicate FCTR_SECTOR_SIZE 0xA5)
          (state_with_table (table_of FCTR_SECTOR_EMPTY FCTR_SECTOR_EMPTY))))))
      = replicate FCTR_SECTOR_SIZE 0xA5"
  using push_pop_roundtrip [OF formatted_table_ready,
    of "replicate FCTR_SECTOR_SIZE 0xA5" "[]"]
  by simp

end
